theory Spec2Isabelle
  imports Main "HOL-Library.Word"
begin

unbundle bit_operations_syntax

section \<open>Machine types\<close>

text \<open>
  The embedding fixes the host the C code is compiled for: a little-endian LP64 machine.
  \<open>unsigned long\<close> and \<open>uintptr_t\<close> are 64 bits wide (\<open>__WORDSIZE = 64\<close>), which is the
  only reading under which every shift of \<open>GENMASK\<close> in \<open>lightrec_rw\<close> is defined: the
  macro is called with a low bit of 32 and 33, an undefined shift of a 32-bit
  \<open>unsigned long\<close>.
\<close>

type_synonym u8 = "8 word"
type_synonym u16 = "16 word"
type_synonym u32 = "32 word"
type_synonym ulong = "64 word"
type_synonym uintptr_t = "64 word"

text \<open>Host memory: one byte per host address.\<close>

type_synonym host_mem = "uintptr_t \<Rightarrow> u8"

section \<open>Opcodes\<close>

text \<open>
  Modelled from the spec: the primary op code \<open>op->i.op\<close>, whose enumeration is in
  \<open>disassembler.h\<close>. The constructors are the load and store tags the specification
  lists, which are the ones \<open>lightrec_rw\<close> and \<open>lightrec_rw_ops\<close> switch on; \<open>OP_OTHER\<close>
  stands for every other value of the field.
\<close>

datatype op_code =
    OP_SB | OP_SH | OP_SW | OP_SWL | OP_SWR
  | OP_LB | OP_LBU | OP_LH | OP_LHU | OP_LW | OP_LWL | OP_LWR
  | OP_OTHER nat

text \<open>
  \<open>struct opcode\<close>: the raw instruction word \<open>opcode\<close> (tested against zero by the
  recompiler) and the fields \<open>i.op\<close> and \<open>i.imm\<close> of its I-type view. The C union
  overlays them; its layout is declared outside these sources and nothing below
  relates the raw word to the fields.
\<close>

record opcode =
  opcode :: u32
  i_op :: op_code
  i_imm :: u16

section \<open>Guest state\<close>

text \<open>
  Modelled from the spec: the exit flags, defined in \<open>lightrec.h\<close>: NORMAL, SEGFAULT,
  and any other the emitter sets.
\<close>

datatype exit_flags = LIGHTREC_EXIT_NORMAL | LIGHTREC_EXIT_SEGFAULT | LIGHTREC_EXIT_OTHER nat

text \<open>The lines written by the \<open>ERROR\<close> macro, in the order they are written.\<close>

datatype log_line =
    Segfault_invalid_load_store u32
  | Unable_to_compile_address_lookup_block
  | Unable_to_compile_wrapper
  | Unable_to_recompile_block_OOM
  | Unable_to_recompile_block_at_PC u32

text \<open>
  \<open>struct block\<close>. \<open>'j\<close> is the code emitter's handle (\<open>jit_state_t\<close>); \<open>function'\<close> is
  the native entry point returned by \<open>jit_emit\<close>; an empty \<open>opcode_list\<close> is the
  \<open>NULL\<close> list head. The back pointer \<open>block->state\<close> is left out.
\<close>

record 'j block =
  pc :: u32
  kunseg_pc :: u32
  jit :: 'j
  function' :: uintptr_t
  opcode_list :: "opcode list"
  cycles :: u32
  code :: uintptr_t

text \<open>
  \<open>struct lightrec_state\<close> without its memory-map array, together with the two pieces
  of the outside world the code writes to: host memory (\<open>mem\<close>) and the error log
  (\<open>log\<close>). \<open>'r\<close> is the register allocator's state. A block pointer is an
  \<open>option\<close>, \<open>None\<close> being \<open>NULL\<close>. The fields are those this source file reads or
  writes, but for \<open>rw_op\<close>, which only ever points to \<open>lightrec_rw\<close>.
\<close>

text \<open>
  Modelled from the spec: the type of \<open>block_cache\<close>. \<open>struct blockcache\<close> is only
  declared in \<open>blockcache.h\<close>; the specification describes it as a mapping from PC to
  block with uniqueness on PC.
\<close>

record ('j, 'r) lightrec_state =
  stop :: bool
  block_exit_flags :: exit_flags
  block_exit_cycles :: u32
  next_pc :: u32
  current :: "'j block option"
  block_cache :: "u32 \<rightharpoonup> 'j block"
  reg_cache :: 'r
  wrapper :: "'j block option"
  addr_lookup_block :: "'j block option"
  addr_lookup :: uintptr_t
  end_of_block :: uintptr_t
  cop_ops :: uintptr_t
  mem :: host_mem
  log :: "log_line list"

text \<open>
  \<open>struct lightrec_mem_map_ops\<close>: the six MMIO callbacks. Each receives the state and
  may change it, so each returns the new state; a load also returns the value read.
\<close>

text \<open>
  Modelled from the spec: the value types of the callbacks, which \<open>lightrec.h\<close> declares.
  \<open>sb\<close> takes and \<open>lb\<close> returns a byte, \<open>sh\<close> and \<open>lh\<close> a halfword, \<open>sw\<close> and \<open>lw\<close> a
  word, the widths of the casts \<open>(u8) data\<close>, \<open>(u16) data\<close>, \<open>(s8)\<close> and \<open>(s16)\<close> at the
  call sites; a load returns its result zero-extended.
\<close>

record ('j, 'r) lightrec_mem_map_ops =
  sb :: "('j, 'r) lightrec_state \<Rightarrow> opcode \<Rightarrow> u32 \<Rightarrow> u8 \<Rightarrow> ('j, 'r) lightrec_state"
  sh :: "('j, 'r) lightrec_state \<Rightarrow> opcode \<Rightarrow> u32 \<Rightarrow> u16 \<Rightarrow> ('j, 'r) lightrec_state"
  sw :: "('j, 'r) lightrec_state \<Rightarrow> opcode \<Rightarrow> u32 \<Rightarrow> u32 \<Rightarrow> ('j, 'r) lightrec_state"
  lb :: "('j, 'r) lightrec_state \<Rightarrow> opcode \<Rightarrow> u32 \<Rightarrow> u8 \<times> ('j, 'r) lightrec_state"
  lh :: "('j, 'r) lightrec_state \<Rightarrow> opcode \<Rightarrow> u32 \<Rightarrow> u16 \<times> ('j, 'r) lightrec_state"
  lw :: "('j, 'r) lightrec_state \<Rightarrow> opcode \<Rightarrow> u32 \<Rightarrow> u32 \<times> ('j, 'r) lightrec_state"

text \<open>
  \<open>struct lightrec_mem_map\<close>. \<open>ops = None\<close> is the \<open>NULL\<close> pointer of a direct-memory
  region. The array \<open>state->mem_map\<close> of \<open>state->nb_maps\<close> entries is a list, passed to
  the functions that read it next to the state: it is written once by \<open>lightrec_init\<close>,
  and a record cannot hold callbacks over its own type.
\<close>

record ('j, 'r) lightrec_mem_map =
  pc :: u32
  length' :: u32
  address :: uintptr_t
  ops :: "('j, 'r) lightrec_mem_map_ops option"

section \<open>Host memory accesses\<close>

text \<open>
  The accesses \<open>*(u8 *)\<close>, \<open>*(u16 *)\<close> and \<open>*(u32 *)\<close> of \<open>lightrec_rw\<close> on the
  little-endian host: the byte at the lowest address is the least significant one.
\<close>

definition load_u8 :: "host_mem \<Rightarrow> uintptr_t \<Rightarrow> u8" where
  "load_u8 m a = m a"

definition load_u16 :: "host_mem \<Rightarrow> uintptr_t \<Rightarrow> u16" where
  "load_u16 m a = ucast (m a) OR push_bit 8 (ucast (m (a + 1)))"

definition load_u32 :: "host_mem \<Rightarrow> uintptr_t \<Rightarrow> u32" where
  "load_u32 m a =
     ucast (m a) OR push_bit 8 (ucast (m (a + 1)))
       OR push_bit 16 (ucast (m (a + 2))) OR push_bit 24 (ucast (m (a + 3)))"

definition store_u8 :: "host_mem \<Rightarrow> uintptr_t \<Rightarrow> u8 \<Rightarrow> host_mem" where
  "store_u8 m a v = m(a := v)"

definition store_u16 :: "host_mem \<Rightarrow> uintptr_t \<Rightarrow> u16 \<Rightarrow> host_mem" where
  "store_u16 m a v = m(a := ucast v, a + 1 := ucast (drop_bit 8 v))"

definition store_u32 :: "host_mem \<Rightarrow> uintptr_t \<Rightarrow> u32 \<Rightarrow> host_mem" where
  "store_u32 m a v =
     m(a := ucast v, a + 1 := ucast (drop_bit 8 v),
       a + 2 := ucast (drop_bit 16 v), a + 3 := ucast (drop_bit 24 v))"

section \<open>The load/store engine\<close>

text \<open>\<open>GENMASK(h, l)\<close>, computed in \<open>unsigned long\<close>.\<close>

definition GENMASK :: "nat \<Rightarrow> nat \<Rightarrow> ulong" where
  "GENMASK h l = push_bit l (NOT 0) AND drop_bit (64 - 1 - h) (NOT 0)"

definition segfault_cb ::
  "('j, 'r) lightrec_state \<Rightarrow> u32 \<Rightarrow> ('j, 'r) lightrec_state" where
  "segfault_cb state addr =
     state\<lparr>stop := True,
           block_exit_flags := LIGHTREC_EXIT_SEGFAULT,
           log := log state @ [Segfault_invalid_load_store addr]\<rparr>"

definition kunseg :: "u32 \<Rightarrow> u32" where
  "kunseg addr =
     (if addr \<ge> 0xa0000000 then addr - 0xa0000000
      else if addr \<ge> 0x80000000 then addr - 0x80000000
      else addr)"

text \<open>A store returns 0; \<open>(s32) (s8)\<close> and \<open>(s32) (s16)\<close> are sign extensions.\<close>

definition lightrec_rw_ops ::
  "('j, 'r) lightrec_state \<Rightarrow> opcode \<Rightarrow> ('j, 'r) lightrec_mem_map_ops \<Rightarrow> u32 \<Rightarrow> u32
     \<Rightarrow> u32 \<times> ('j, 'r) lightrec_state" where
  "lightrec_rw_ops state op' ops' addr data =
     (case i_op op' of
        OP_SB \<Rightarrow> (0, sb ops' state op' addr (ucast data))
      | OP_SH \<Rightarrow> (0, sh ops' state op' addr (ucast data))
      | OP_SWL \<Rightarrow> (0, sw ops' state op' addr data)
      | OP_SWR \<Rightarrow> (0, sw ops' state op' addr data)
      | OP_SW \<Rightarrow> (0, sw ops' state op' addr data)
      | OP_LB \<Rightarrow> (let (v, s) = lb ops' state op' addr in (scast v, s))
      | OP_LBU \<Rightarrow> (let (v, s) = lb ops' state op' addr in (ucast v, s))
      | OP_LH \<Rightarrow> (let (v, s) = lh ops' state op' addr in (scast v, s))
      | OP_LHU \<Rightarrow> (let (v, s) = lh ops' state op' addr in (ucast v, s))
      | _ \<Rightarrow> lw ops' state op' addr)"

text \<open>
  The \<open>switch\<close> of \<open>lightrec_rw\<close> on a direct-memory hit: \<open>new_addr\<close> is the host
  address, \<open>kaddr\<close> the unsegmented guest address. \<open>~3\<close> is the \<open>int\<close> \<open>-4\<close>, widened to
  \<open>uintptr_t\<close>; \<open>1 << n\<close> is computed in \<open>int\<close> with \<open>n \<le> 24\<close>.
\<close>

definition rw_direct ::
  "('j, 'r) lightrec_state \<Rightarrow> opcode \<Rightarrow> uintptr_t \<Rightarrow> u32 \<Rightarrow> u32
     \<Rightarrow> u32 \<times> ('j, 'r) lightrec_state" where
  "rw_direct state op' new_addr kaddr data =
     (case i_op op' of
        OP_SB \<Rightarrow> (0, state\<lparr>mem := store_u8 (mem state) new_addr (ucast data)\<rparr>)
      | OP_SH \<Rightarrow> (0, state\<lparr>mem := store_u16 (mem state) new_addr (ucast data)\<rparr>)
      | OP_SWL \<Rightarrow>
          (let shift = kaddr AND 3;
               mem_data = load_u32 (mem state) (new_addr AND NOT 3);
               mask' = (ucast (GENMASK 31 (unat (shift * 8 + 9))) :: u32)
           in (0, state\<lparr>mem := store_u32 (mem state) (new_addr AND NOT 3)
                    (drop_bit (unat ((3 - shift) * 8)) data OR (mem_data AND mask'))\<rparr>))
      | OP_SWR \<Rightarrow>
          (let shift = kaddr AND 3;
               mem_data = load_u32 (mem state) (new_addr AND NOT 3);
               mask' = (push_bit (unat (shift * 8)) 1 - 1 :: u32)
           in (0, state\<lparr>mem := store_u32 (mem state) (new_addr AND NOT 3)
                    (push_bit (unat (shift * 8)) data OR (mem_data AND mask'))\<rparr>))
      | OP_SW \<Rightarrow> (0, state\<lparr>mem := store_u32 (mem state) new_addr data\<rparr>)
      | OP_LB \<Rightarrow> (scast (load_u8 (mem state) new_addr), state)
      | OP_LBU \<Rightarrow> (ucast (load_u8 (mem state) new_addr), state)
      | OP_LH \<Rightarrow> (scast (load_u16 (mem state) new_addr), state)
      | OP_LHU \<Rightarrow> (ucast (load_u16 (mem state) new_addr), state)
      | OP_LWL \<Rightarrow>
          (let shift = kaddr AND 3;
               mem_data = load_u32 (mem state) (new_addr AND NOT 3);
               mask' = (push_bit (unat (24 - shift * 8)) 1 - 1 :: u32)
           in ((data AND mask') OR push_bit (unat (24 - shift * 8)) mem_data, state))
      | OP_LWR \<Rightarrow>
          (let shift = kaddr AND 3;
               mem_data = load_u32 (mem state) (new_addr AND NOT 3);
               mask' = (ucast (GENMASK 31 (unat (32 - shift * 8))) :: u32)
           in ((data AND mask') OR drop_bit (unat (shift * 8)) mem_data, state))
      | _ \<Rightarrow> (load_u32 (mem state) new_addr, state))"

text \<open>
  The \<open>for\<close> loop of \<open>lightrec_rw\<close> over the map entries, from the entry it has reached.
  \<open>addr\<close> is the effective address and \<open>kaddr = kunseg addr\<close>; \<open>pc + length\<close> is a
  \<open>u32\<close> sum and wraps.
\<close>

fun rw_loop ::
  "('j, 'r) lightrec_mem_map list \<Rightarrow> ('j, 'r) lightrec_state \<Rightarrow> opcode \<Rightarrow> u32 \<Rightarrow> u32 \<Rightarrow> u32
     \<Rightarrow> u32 \<times> ('j, 'r) lightrec_state" where
  "rw_loop [] state op' addr kaddr data = (0, segfault_cb state addr)"
| "rw_loop (m # ms) state op' addr kaddr data =
     (let pc' = lightrec_mem_map.pc m in
      case ops m of
        Some ops' \<Rightarrow>
          if addr < pc' \<or> addr \<ge> pc' + length' m
          then rw_loop ms state op' addr kaddr data
          else lightrec_rw_ops state op' ops' addr data
      | None \<Rightarrow>
          if kaddr < pc' \<or> kaddr \<ge> pc' + length' m
          then rw_loop ms state op' addr kaddr data
          else rw_direct state op' (address m + ucast (kaddr - pc')) kaddr data)"

definition lightrec_rw ::
  "('j, 'r) lightrec_mem_map list \<Rightarrow> ('j, 'r) lightrec_state \<Rightarrow> opcode \<Rightarrow> u32 \<Rightarrow> u32
     \<Rightarrow> u32 \<times> ('j, 'r) lightrec_state" where
  "lightrec_rw mem_map state op' addr data =
     (let addr' = addr + scast (i_imm op');
          kaddr = kunseg addr'
      in rw_loop mem_map state op' addr' kaddr data)"

section \<open>Code lookup\<close>

text \<open>
  \<open>find_code_address\<close>: the first entry whose range holds \<open>kunseg pc\<close>, whatever its
  \<open>ops\<close>; the null pointer 0 when there is none. The sum \<open>address + offset\<close> counts
  bytes, as it does in \<open>lightrec_rw\<close>.
\<close>

fun find_code_address_loop :: "('j, 'r) lightrec_mem_map list \<Rightarrow> u32 \<Rightarrow> uintptr_t" where
  "find_code_address_loop [] addr = 0"
| "find_code_address_loop (m # ms) addr =
     (if addr \<ge> lightrec_mem_map.pc m \<and> addr < lightrec_mem_map.pc m + length' m
      then address m + ucast (addr - lightrec_mem_map.pc m)
      else find_code_address_loop ms addr)"

definition find_code_address :: "('j, 'r) lightrec_mem_map list \<Rightarrow> u32 \<Rightarrow> uintptr_t" where
  "find_code_address mem_map pc0 = find_code_address_loop mem_map (kunseg pc0)"

section \<open>External collaborators\<close>

text \<open>
  Modelled from the spec: the result of the per-opcode emitter, which the specification
  gives as one of EMITTED and SKIP_DELAY_SLOT (the constant is defined in \<open>emitter.h\<close>).
\<close>

datatype rec_result = EMITTED | SKIP_DELAY_SLOT

text \<open>
  What one call of \<open>lightrec_recompile_block\<close> or \<open>lightrec_execute\<close> gets from code
  outside these sources: whether \<open>malloc\<close> of the block succeeds, the handle returned by
  \<open>jit_new_state\<close> (\<open>None\<close> is \<open>NULL\<close>), the disassembler (an empty list is \<open>NULL\<close>), the
  cycle table, the per-opcode emitter (it reads the block and returns the emitter handle
  and the register cache as it leaves them), the register-cache reset, the code emitted
  before and after the opcodes, \<open>jit_emit\<close>, and the run of the native code entered
  through the wrapper (wrapper entry, block entry, state before; state after).
\<close>

record ('j, 'r) collaborators =
  malloc_block :: bool
  jit_new_state :: "'j option"
  lightrec_disassemble :: "host_mem \<Rightarrow> uintptr_t \<Rightarrow> opcode list"
  lightrec_cycles_of_opcode :: "opcode \<Rightarrow> u32"
  lightrec_rec_opcode :: "'j block \<Rightarrow> 'r \<Rightarrow> opcode \<Rightarrow> u32 \<Rightarrow> rec_result \<times> 'j \<times> 'r"
  lightrec_regcache_reset :: "'r \<Rightarrow> 'r"
  jit_prolog_tramp :: "'j \<Rightarrow> 'j"
  jit_ret_epilog :: "'j \<Rightarrow> 'j"
  jit_emit :: "'j \<Rightarrow> uintptr_t"
  run_native :: "uintptr_t \<Rightarrow> uintptr_t \<Rightarrow> ('j, 'r) lightrec_state \<Rightarrow> ('j, 'r) lightrec_state"

section \<open>The recompiler driver\<close>

text \<open>
  The \<open>for\<close> loop of \<open>lightrec_recompile_block\<close> from the element it has reached: the
  guest PC of that element, \<open>skip_next\<close>, the block and the register cache.
\<close>

fun recompile_loop ::
  "('j, 'r) collaborators \<Rightarrow> opcode list \<Rightarrow> u32 \<Rightarrow> bool \<Rightarrow> 'j block \<Rightarrow> 'r \<Rightarrow> 'j block \<times> 'r" where
  "recompile_loop ext [] pc0 skip_next blk rc = (blk, rc)"
| "recompile_loop ext (elm # rest) pc0 skip_next blk rc =
     (let blk1 = blk\<lparr>cycles := cycles blk + lightrec_cycles_of_opcode ext elm\<rparr> in
      if skip_next then recompile_loop ext rest (pc0 + 4) False blk1 rc
      else if opcode elm = 0 then recompile_loop ext rest (pc0 + 4) False blk1 rc
      else
        (let (ret, j, rc1) = lightrec_rec_opcode ext blk1 rc elm pc0
         in recompile_loop ext rest (pc0 + 4) (ret = SKIP_DELAY_SLOT) (blk1\<lparr>jit := j\<rparr>) rc1))"

text \<open>
  \<open>lightrec_recompile_block\<close>: the block, or \<open>None\<close> for \<open>NULL\<close>, and the state with the
  log line of the out-of-memory exits and the register cache as the emitter left it.
  \<open>function'\<close> is not assigned before \<open>jit_emit\<close>; it is 0 until then.
\<close>

definition lightrec_recompile_block ::
  "('j, 'r) collaborators \<Rightarrow> ('j, 'r) lightrec_mem_map list \<Rightarrow> ('j, 'r) lightrec_state \<Rightarrow> u32
     \<Rightarrow> 'j block option \<times> ('j, 'r) lightrec_state" where
  "lightrec_recompile_block ext mem_map state pc0 =
     (let code' = find_code_address mem_map pc0;
          err_no_mem = (None, state\<lparr>log := log state @ [Unable_to_recompile_block_OOM]\<rparr>)
      in
      if code' = 0 then (None, state)
      else if \<not> malloc_block ext then err_no_mem
      else
        (let list = lightrec_disassemble ext (mem state) code' in
         if list = [] then err_no_mem
         else
           (case jit_new_state ext of
              None \<Rightarrow> err_no_mem
            | Some j0 \<Rightarrow>
                (let rc0 = lightrec_regcache_reset ext (reg_cache state);
                     blk0 = \<lparr>block.pc = pc0, kunseg_pc = kunseg pc0,
                             jit = jit_prolog_tramp ext j0, function' = 0,
                             opcode_list = list, cycles = 0, code = code'\<rparr>;
                     (blk1, rc1) = recompile_loop ext list pc0 False blk0 rc0;
                     j1 = jit_ret_epilog ext (jit blk1)
                 in (Some (blk1\<lparr>jit := j1, function' := jit_emit ext j1\<rparr>),
                     state\<lparr>reg_cache := rc1\<rparr>)))))"

section \<open>The block cache and the executor\<close>

text \<open>
  Modelled from the spec: \<open>lightrec_find_block\<close> and \<open>lightrec_register_block\<close>, which
  \<open>blockcache.h\<close> declares and the specification describes as the lookup and the
  insertion of a mapping from PC to block.
\<close>

definition lightrec_find_block :: "(u32 \<rightharpoonup> 'j block) \<Rightarrow> u32 \<Rightarrow> 'j block option" where
  "lightrec_find_block cache pc0 = cache pc0"

definition lightrec_register_block :: "(u32 \<rightharpoonup> 'j block) \<Rightarrow> 'j block \<Rightarrow> (u32 \<rightharpoonup> 'j block)" where
  "lightrec_register_block cache blk = cache(block.pc blk \<mapsto> blk)"

text \<open>A call either returns a value or goes through a null pointer.\<close>

datatype 'a outcome = Null_dereference | Returned 'a

text \<open>
  \<open>lightrec_execute\<close> reads \<open>state->wrapper->function\<close> first. The result is the
  returned PC and the state after the call.
\<close>

definition enter_block ::
  "('j, 'r) collaborators \<Rightarrow> 'j block \<Rightarrow> 'j block \<Rightarrow> ('j, 'r) lightrec_state
     \<Rightarrow> u32 \<times> ('j, 'r) lightrec_state" where
  "enter_block ext w blk state =
     (let s1 = state\<lparr>block_exit_flags := LIGHTREC_EXIT_NORMAL,
                     block_exit_cycles := 0,
                     current := Some blk\<rparr>;
          s2 = run_native ext (function' w) (function' blk) s1
      in (next_pc s2, s2))"

definition lightrec_execute ::
  "('j, 'r) collaborators \<Rightarrow> ('j, 'r) lightrec_mem_map list \<Rightarrow> ('j, 'r) lightrec_state \<Rightarrow> u32
     \<Rightarrow> (u32 \<times> ('j, 'r) lightrec_state) outcome" where
  "lightrec_execute ext mem_map state pc0 =
     (case wrapper state of
        None \<Rightarrow> Null_dereference
      | Some w \<Rightarrow>
          (case lightrec_find_block (block_cache state) pc0 of
             Some blk \<Rightarrow> Returned (enter_block ext w blk state)
           | None \<Rightarrow>
               (case lightrec_recompile_block ext mem_map state pc0 of
                  (None, s1) \<Rightarrow>
                    Returned (pc0, s1\<lparr>log := log s1 @ [Unable_to_recompile_block_at_PC pc0]\<rparr>)
                | (Some blk, s1) \<Rightarrow>
                    Returned (enter_block ext w blk
                      (s1\<lparr>block_cache := lightrec_register_block (block_cache s1) blk\<rparr>)))))"

section \<open>Initialisation\<close>

text \<open>
  What one call of \<open>lightrec_init\<close> gets from outside: whether \<open>calloc\<close> and the two
  \<open>malloc\<close>s succeed, the two emitter handles, the register cache, the native code
  emitted for the wrapper (its entry and its exit address) and for the address lookup.
\<close>

record ('j, 'r) init_env =
  calloc_state :: bool
  lightrec_regcache_init :: 'r
  malloc_wrapper :: bool
  jit_new_state_wrapper :: "'j option"
  emit_wrapper :: "'j \<Rightarrow> 'j \<times> uintptr_t \<times> uintptr_t"
  malloc_address_lookup :: bool
  jit_new_state_address_lookup :: "'j option"
  emit_address_lookup :: "'j \<Rightarrow> nat \<Rightarrow> 'j \<times> uintptr_t"

text \<open>
  The two generators set \<open>state\<close>, \<open>_jit\<close>, \<open>function\<close> and \<open>opcode_list\<close> of the block
  they allocate; the fields they leave unassigned are 0 here.
\<close>

definition generate_address_lookup_block ::
  "('j, 'r) init_env \<Rightarrow> ('j, 'r) lightrec_state \<Rightarrow> nat
     \<Rightarrow> 'j block option \<times> ('j, 'r) lightrec_state" where
  "generate_address_lookup_block env state nb_maps =
     (let err_no_mem =
            (None, state\<lparr>log := log state @ [Unable_to_compile_address_lookup_block]\<rparr>)
      in
      if \<not> malloc_address_lookup env then err_no_mem
      else
        (case jit_new_state_address_lookup env of
           None \<Rightarrow> err_no_mem
         | Some j0 \<Rightarrow>
             (let (j1, entry) = emit_address_lookup env j0 nb_maps
              in (Some \<lparr>block.pc = 0, kunseg_pc = 0, jit = j1, function' = entry,
                        opcode_list = [], cycles = 0, code = 0\<rparr>, state))))"

definition generate_wrapper_block ::
  "('j, 'r) init_env \<Rightarrow> ('j, 'r) lightrec_state
     \<Rightarrow> 'j block option \<times> ('j, 'r) lightrec_state" where
  "generate_wrapper_block env state =
     (let err_no_mem = (None, state\<lparr>log := log state @ [Unable_to_compile_wrapper]\<rparr>)
      in
      if \<not> malloc_wrapper env then err_no_mem
      else
        (case jit_new_state_wrapper env of
           None \<Rightarrow> err_no_mem
         | Some j0 \<Rightarrow>
             (let (j1, entry, exit_addr) = emit_wrapper env j0
              in (Some \<lparr>block.pc = 0, kunseg_pc = 0, jit = j1, function' = entry,
                        opcode_list = [], cycles = 0, code = 0\<rparr>,
                  state\<lparr>end_of_block := exit_addr\<rparr>))))"

text \<open>
  \<open>lightrec_init\<close>, started with host memory \<open>m\<close> and the log \<open>l\<close>. The result is the
  returned pointer (\<open>None\<close> for \<open>NULL\<close>) with the copied map, the first \<open>nb\<close> entries
  of \<open>map'\<close>. \<open>calloc\<close> zeroes the state; the exit flag of value zero is taken to be
  \<open>LIGHTREC_EXIT_NORMAL\<close>, and the block cache starts empty. The state pointer
  is written through right after \<open>calloc\<close>, and \<open>state->addr_lookup_block->function\<close>
  is read right after the address-lookup block is generated.
\<close>

definition lightrec_init ::
  "('j, 'r) init_env \<Rightarrow> host_mem \<Rightarrow> log_line list \<Rightarrow> ('j, 'r) lightrec_mem_map list \<Rightarrow> nat
     \<Rightarrow> uintptr_t
     \<Rightarrow> (('j, 'r) lightrec_state \<times> ('j, 'r) lightrec_mem_map list) option outcome" where
  "lightrec_init env m l map' nb cop_ops' =
     (if \<not> calloc_state env then Null_dereference
      else
        (let s0 = \<lparr>stop = False, block_exit_flags = LIGHTREC_EXIT_NORMAL,
                   block_exit_cycles = 0, next_pc = 0, current = None,
                   block_cache = Map.empty, reg_cache = lightrec_regcache_init env,
                   wrapper = None, addr_lookup_block = None, addr_lookup = 0,
                   end_of_block = 0, cop_ops = cop_ops', mem = m, log = l\<rparr>;
             mem_map = take nb map';
             (w, s1) = generate_wrapper_block env s0;
             s2 = s1\<lparr>wrapper := w\<rparr>;
             (lk, s3) = generate_address_lookup_block env s2 nb;
             s4 = s3\<lparr>addr_lookup_block := lk\<rparr>
         in case lk of
              None \<Rightarrow> Null_dereference
            | Some b \<Rightarrow> Returned (Some (s4\<lparr>addr_lookup := function' b\<rparr>, mem_map))))"

section \<open>The unaligned word accesses, word by word\<close>

text \<open>
  The words that the \<open>OP_SWL\<close> and \<open>OP_SWR\<close> cases of \<open>lightrec_rw\<close> write and the
  \<open>OP_LWL\<close> and \<open>OP_LWR\<close> cases return, as functions of \<open>shift\<close>, \<open>data\<close> and the
  memory word \<open>mem_data\<close>.
\<close>

definition swl_word :: "u32 \<Rightarrow> u32 \<Rightarrow> u32 \<Rightarrow> u32" where
  "swl_word shift data mem_data =
     drop_bit (unat ((3 - shift) * 8)) data OR (mem_data AND ucast (GENMASK 31 (unat (shift * 8 + 9))))"

definition swr_word :: "u32 \<Rightarrow> u32 \<Rightarrow> u32 \<Rightarrow> u32" where
  "swr_word shift data mem_data =
     push_bit (unat (shift * 8)) data OR (mem_data AND (push_bit (unat (shift * 8)) 1 - 1))"

definition lwl_word :: "u32 \<Rightarrow> u32 \<Rightarrow> u32 \<Rightarrow> u32" where
  "lwl_word shift data mem_data =
     (data AND (push_bit (unat (24 - shift * 8)) 1 - 1)) OR push_bit (unat (24 - shift * 8)) mem_data"

definition lwr_word :: "u32 \<Rightarrow> u32 \<Rightarrow> u32 \<Rightarrow> u32" where
  "lwr_word shift data mem_data =
     (data AND ucast (GENMASK 31 (unat (32 - shift * 8)))) OR drop_bit (unat (shift * 8)) mem_data"

text \<open>
  The round trip of the specification through \<open>lightrec_rw\<close>: \<open>SWL\<close> then \<open>SWR\<close> of \<open>v\<close>,
  then \<open>LWL\<close> into a register holding 0, then \<open>LWR\<close> into the result of \<open>LWL\<close>, all four
  with the base and the immediate of \<open>op'\<close>.
\<close>

definition unaligned_round_trip ::
  "('j, 'r) lightrec_mem_map list \<Rightarrow> ('j, 'r) lightrec_state \<Rightarrow> opcode \<Rightarrow> u32 \<Rightarrow> u32 \<Rightarrow> u32" where
  "unaligned_round_trip mem_map state op' base v =
     (let (r1, s1) = lightrec_rw mem_map state (op'\<lparr>i_op := OP_SWL\<rparr>) base v;
          (r2, s2) = lightrec_rw mem_map s1 (op'\<lparr>i_op := OP_SWR\<rparr>) base v;
          (r3, s3) = lightrec_rw mem_map s2 (op'\<lparr>i_op := OP_LWL\<rparr>) base 0;
          (r4, s4) = lightrec_rw mem_map s3 (op'\<lparr>i_op := OP_LWR\<rparr>) base r3
      in r4)"

section \<open>Resolution as the specification words it\<close>

text \<open>
  The range test of an entry, as \<open>find_code_address\<close> writes it; \<open>lightrec_rw\<close> passes
  over an entry on its negation.
\<close>

definition region_contains :: "('j, 'r) lightrec_mem_map \<Rightarrow> u32 \<Rightarrow> bool" where
  "region_contains m a \<longleftrightarrow>
     lightrec_mem_map.pc m \<le> a \<and> a < lightrec_mem_map.pc m + length' m"

text \<open>
  The address an entry is matched against: the effective address itself when the entry
  has MMIO ops (the test at the top of the loop body of \<open>lightrec_rw\<close>), its \<open>kunseg\<close>
  when it has none (the test below it).
\<close>

definition matched_address :: "('j, 'r) lightrec_mem_map \<Rightarrow> u32 \<Rightarrow> u32" where
  "matched_address m addr = (case ops m of Some ops' \<Rightarrow> addr | None \<Rightarrow> kunseg addr)"

text \<open>
  The resolution of the specification, from its words: an entry with MMIO ops is matched
  on the address before \<open>kunseg\<close>, an entry without on the address after it; the entries
  are scanned in order and the first hit is returned.
\<close>

definition entry_hit :: "('j, 'r) lightrec_mem_map \<Rightarrow> u32 \<Rightarrow> bool" where
  "entry_hit m addr =
     (case ops m of
        Some ops' \<Rightarrow> region_contains m addr
      | None \<Rightarrow> region_contains m (kunseg addr))"

definition resolve ::
  "('j, 'r) lightrec_mem_map list \<Rightarrow> u32 \<Rightarrow> ('j, 'r) lightrec_mem_map option" where
  "resolve mem_map addr = find (\<lambda>m. entry_hit m addr) mem_map"

text \<open>
  What \<open>lightrec_rw\<close> does on the entry it resolved to: the callbacks of an MMIO entry,
  the host access of a direct one at \<open>address + (kaddr - pc)\<close>.
\<close>

definition host_address :: "('j, 'r) lightrec_mem_map \<Rightarrow> u32 \<Rightarrow> uintptr_t" where
  "host_address m addr = address m + ucast (kunseg addr - lightrec_mem_map.pc m)"

definition rw_on_entry ::
  "('j, 'r) lightrec_mem_map \<Rightarrow> ('j, 'r) lightrec_state \<Rightarrow> opcode \<Rightarrow> u32 \<Rightarrow> u32
     \<Rightarrow> u32 \<times> ('j, 'r) lightrec_state" where
  "rw_on_entry m state op' addr data =
     (case ops m of
        Some ops' \<Rightarrow> lightrec_rw_ops state op' ops' addr data
      | None \<Rightarrow> rw_direct state op' (host_address m addr) (kunseg addr) data)"

text \<open>
  The words of the unaligned stores: the high \<open>k\<close> bytes of \<open>data\<close> are the low \<open>k\<close> bytes
  of the word \<open>w\<close>; the low \<open>k\<close> bytes of \<open>data\<close> are the high \<open>k\<close> bytes of \<open>w\<close>.
\<close>

definition high_bytes_in_low :: "nat \<Rightarrow> u32 \<Rightarrow> u32 \<Rightarrow> bool" where
  "high_bytes_in_low k data w \<longleftrightarrow> take_bit (8 * k) w = drop_bit (8 * (4 - k)) data"

definition low_bytes_in_high :: "nat \<Rightarrow> u32 \<Rightarrow> u32 \<Rightarrow> bool" where
  "low_bytes_in_high k data w \<longleftrightarrow> drop_bit (8 * (4 - k)) w = take_bit (8 * k) data"

section \<open>A small machine\<close>

text \<open>
  One concrete embedding to run the functions on: 4 KiB of RAM at guest address 0, backed
  by host memory at \<open>0x10000\<close>, behind an I/O window at \<open>0x1F801000\<close> whose loads read
  \<open>0xFF\<close>, \<open>0xFFFF\<close> and \<open>0xCAFEF00D\<close> and whose stores log nothing and set \<open>next_pc\<close> to the
  value stored.
\<close>

definition example_io_ops :: "(u32 list, unit) lightrec_mem_map_ops" where
  "example_io_ops =
     \<lparr>sb = (\<lambda>s _ _ v. s\<lparr>next_pc := ucast v\<rparr>),
      sh = (\<lambda>s _ _ v. s\<lparr>next_pc := ucast v\<rparr>),
      sw = (\<lambda>s _ _ v. s\<lparr>next_pc := v\<rparr>),
      lb = (\<lambda>s _ _. (0xFF, s)),
      lh = (\<lambda>s _ _. (0xFFFF, s)),
      lw = (\<lambda>s _ _. (0xCAFEF00D, s))\<rparr>"

definition example_io :: "(u32 list, unit) lightrec_mem_map" where
  "example_io = \<lparr>lightrec_mem_map.pc = 0x1F801000, length' = 0x1000, address = 0,
                  ops = Some example_io_ops\<rparr>"

definition example_ram :: "(u32 list, unit) lightrec_mem_map" where
  "example_ram = \<lparr>lightrec_mem_map.pc = 0, length' = 0x1000, address = 0x10000, ops = None\<rparr>"

definition example_map :: "(u32 list, unit) lightrec_mem_map list" where
  "example_map = [example_io, example_ram]"

definition example_wrapper :: "u32 list block" where
  "example_wrapper = \<lparr>block.pc = 0, kunseg_pc = 0, jit = [], function' = 0x7000,
                       opcode_list = [], cycles = 0, code = 0\<rparr>"

definition example_state :: "(u32 list, unit) lightrec_state" where
  "example_state =
     \<lparr>stop = False, block_exit_flags = LIGHTREC_EXIT_NORMAL, block_exit_cycles = 0,
      next_pc = 0, current = None, block_cache = Map.empty, reg_cache = (),
      wrapper = Some example_wrapper, addr_lookup_block = None, addr_lookup = 0,
      end_of_block = 0, cop_ops = 0, mem = (\<lambda>a. 0), log = []\<rparr>"

definition example_op :: "op_code \<Rightarrow> u16 \<Rightarrow> opcode" where
  "example_op c imm = \<lparr>opcode = 1, i_op = c, i_imm = imm\<rparr>"

text \<open>
  The small machine with the word \<open>0xAABBCCDD\<close> at offset 0 of its RAM, as in the
  specification's unaligned-store scenario.
\<close>

definition scenario_state :: "(u32 list, unit) lightrec_state" where
  "scenario_state = example_state\<lparr>mem := store_u32 (mem example_state) 0x10000 0xAABBCCDD\<rparr>"

text \<open>The small machine with the byte \<open>0x5A\<close> in the last byte of its RAM.\<close>

definition boundary_state :: "(u32 list, unit) lightrec_state" where
  "boundary_state = example_state\<lparr>mem := store_u8 (mem example_state) 0x10FFF 0x5A\<rparr>"

text \<open>
  Collaborators for the small machine. The disassembler finds four opcodes at the start
  of the RAM: a branch (raw word 4), its delay slot (7), a NOP (0) and one more opcode
  (9). An opcode of raw word \<open>n\<close> takes \<open>n + 1\<close> cycles. The emitter appends the raw word
  of each opcode it is given to the emitter handle, and returns \<open>SKIP_DELAY_SLOT\<close> for
  the branch. The native code of a block sets \<open>next_pc\<close> to the block's entry.
\<close>

definition example_raw :: "u32 \<Rightarrow> opcode" where
  "example_raw n = \<lparr>opcode = n, i_op = OP_OTHER 0, i_imm = 0\<rparr>"

definition example_ext :: "(u32 list, unit) collaborators" where
  "example_ext =
     \<lparr>malloc_block = True,
      jit_new_state = Some [],
      lightrec_disassemble =
        (\<lambda>m a. if a = 0x10000
               then [example_raw 4, example_raw 7, example_raw 0, example_raw 9] else []),
      lightrec_cycles_of_opcode = (\<lambda>p. opcode p + 1),
      lightrec_rec_opcode =
        (\<lambda>b rc p a. (if opcode p = 4 then SKIP_DELAY_SLOT else EMITTED, jit b @ [opcode p], rc)),
      lightrec_regcache_reset = (\<lambda>rc. rc),
      jit_prolog_tramp = (\<lambda>j. j),
      jit_ret_epilog = (\<lambda>j. j),
      jit_emit = (\<lambda>j. 0x20000),
      run_native = (\<lambda>w f s. s\<lparr>next_pc := ucast f\<rparr>)\<rparr>"

definition example_init_env :: "(u32 list, unit) init_env" where
  "example_init_env =
     \<lparr>calloc_state = True,
      lightrec_regcache_init = (),
      malloc_wrapper = True,
      jit_new_state_wrapper = Some [],
      emit_wrapper = (\<lambda>j. (j, 0x7000, 0x7040)),
      malloc_address_lookup = True,
      jit_new_state_address_lookup = Some [],
      emit_address_lookup = (\<lambda>j n. (j, 0x8000))\<rparr>"

section \<open>Resolution: the loop of \<open>lightrec_rw\<close> and the specification's scan\<close>

lemmas example_defs =
  example_map_def example_io_def example_ram_def example_state_def example_op_def
  example_io_ops_def scenario_state_def

text \<open>A word stored to host memory is the word loaded from the same address.\<close>

lemma addr_distinct:
  "(a::uintptr_t) + 1 \<noteq> a" "a + 2 \<noteq> a" "a + 3 \<noteq> a" "a + 2 \<noteq> a + 1" "a + 3 \<noteq> a + 1" "a + 3 \<noteq> a + 2"
  by simp_all

lemma bytes_of_u32:
  fixes v :: u32
  shows "ucast (ucast v :: u8) OR push_bit 8 (ucast (ucast (drop_bit 8 v) :: u8))
       OR push_bit 16 (ucast (ucast (drop_bit 16 v) :: u8))
       OR push_bit 24 (ucast (ucast (drop_bit 24 v) :: u8)) = v"
proof (rule bit_word_eqI)
  fix n :: nat
  assume "n < LENGTH(32)"
  then have n: "n < 32" by simp
  let ?l = "ucast (ucast v :: u8) OR push_bit 8 (ucast (ucast (drop_bit 8 v) :: u8))
       OR push_bit 16 (ucast (ucast (drop_bit 16 v) :: u8))
       OR push_bit 24 (ucast (ucast (drop_bit 24 v) :: u8)) :: u32"
  consider "n < 8" | k where "n = 8 + k" "k < 8" | k where "n = 16 + k" "k < 8"
    | k where "n = 24 + k" "k < 8"
  proof -
    have "n < 8 \<or> (n = 8 + (n - 8) \<and> n - 8 < 8) \<or> (n = 16 + (n - 16) \<and> n - 16 < 8)
        \<or> (n = 24 + (n - 24) \<and> n - 24 < 8)"
      using n by arith
    then show ?thesis using that by blast
  qed
  then show "bit ?l n = bit v n"
  proof cases
    case 1
    then show ?thesis by (simp add: bit_simps)
  next
    case 2
    then show ?thesis by (simp add: bit_simps)
  next
    case 3
    then show ?thesis by (simp add: bit_simps)
  next
    case 4
    then show ?thesis by (simp add: bit_simps)
  qed
qed

lemma load_store_u32: "load_u32 (store_u32 m a v) a = v"
  unfolding load_u32_def store_u32_def
  by (simp add: addr_distinct bytes_of_u32)

text \<open>The loop of \<open>lightrec_rw\<close> computes the scan of the specification.\<close>

lemma rw_loop_resolve:
  "rw_loop ms st op' addr (kunseg addr) data =
     (case resolve ms addr of
        None \<Rightarrow> (0, segfault_cb st addr)
      | Some m \<Rightarrow> rw_on_entry m st op' addr data)"
proof (induction ms)
  case Nil
  show ?case by (simp add: resolve_def)
next
  case (Cons m ms)
  show ?case
  proof (cases "entry_hit m addr")
    case True
    then show ?thesis
      by (auto simp add: resolve_def entry_hit_def rw_on_entry_def host_address_def
          region_contains_def Let_def split: option.splits)
  next
    case False
    then have "rw_loop (m # ms) st op' addr (kunseg addr) data = rw_loop ms st op' addr (kunseg addr) data"
      by (auto simp add: entry_hit_def region_contains_def Let_def split: option.splits)
    with False Cons show ?thesis by (simp add: resolve_def)
  qed
qed

lemma lightrec_rw_resolve:
  "lightrec_rw ms st op' base data =
     (case resolve ms (base + scast (i_imm op')) of
        None \<Rightarrow> (0, segfault_cb st (base + scast (i_imm op')))
      | Some m \<Rightarrow> rw_on_entry m st op' (base + scast (i_imm op')) data)"
  by (simp add: lightrec_rw_def Let_def rw_loop_resolve)

lemma resolve_Some_iff:
  "resolve ms addr = Some m \<longleftrightarrow>
     (\<exists>i < length ms. ms ! i = m \<and> entry_hit m addr \<and> (\<forall>j < i. \<not> entry_hit (ms ! j) addr))"
  by (auto simp add: resolve_def find_Some_iff)

lemma resolve_None_iff:
  "resolve ms addr = None \<longleftrightarrow> (\<forall>m \<in> set ms. \<not> entry_hit m addr)"
  by (auto simp add: resolve_def find_None_iff)

lemma boundary_last:
  assumes "length' m \<noteq> 0" "unat (lightrec_mem_map.pc m) + unat (length' m) < 2 ^ 32"
  shows "region_contains m (lightrec_mem_map.pc m + length' m - 1)"
proof -
  have pos: "0 < unat (length' m)" using assms(1) by (simp add: unat_gt_0)
  have s: "unat (lightrec_mem_map.pc m + length' m) = unat (lightrec_mem_map.pc m) + unat (length' m)"
    using assms(2) by (simp add: unat_word_ariths)
  have "lightrec_mem_map.pc m + length' m \<noteq> 0"
    using s pos by (metis add_is_0 less_numeral_extra(3) unat_0)
  then have p: "unat (lightrec_mem_map.pc m + length' m - 1) = unat (lightrec_mem_map.pc m) + unat (length' m) - 1"
    using s by (simp add: unat_minus_one)
  show ?thesis
    unfolding region_contains_def word_le_nat_alt word_less_nat_alt p s
    using pos by arith
qed

lemma boundary_end: "\<not> region_contains m (lightrec_mem_map.pc m + length' m)"
  unfolding region_contains_def by simp

lemma entry_hit_matched: "entry_hit m a \<longleftrightarrow> region_contains m (matched_address m a)"
  by (simp add: entry_hit_def matched_address_def split: option.splits)

lemma resolve_append_hit:
  assumes "\<forall>e \<in> set pre. \<not> entry_hit e a" and "entry_hit m a"
  shows "resolve (pre @ m # post) a = Some m"
  using assms by (induction pre) (simp_all add: resolve_def)

lemma resolve_append_miss:
  assumes "\<not> entry_hit m a"
  shows "resolve (pre @ m # post) a = resolve (pre @ post) a"
  using assms by (induction pre) (simp_all add: resolve_def)

lemma kunseg_low: "a < 0x80000000 \<Longrightarrow> kunseg a = a"
  by (simp add: kunseg_def word_le_nat_alt word_less_nat_alt)

text \<open>
  Claim C3, as amended. \<open>lightrec_rw\<close> resolves its effective address as the
  specification's scan does: the entries are tried in list order and the first hit is
  taken (a miss everywhere is the segmentation fault). An entry is hit when the address
  it is matched against lies in \<open>[pc, pc + length)\<close>, computed in \<open>u32\<close>; that address is
  the effective address for an entry with MMIO ops and its \<open>kunseg\<close> for an entry
  without, which is the effective address itself below \<open>0x80000000\<close>. When the address
  an entry is matched against is \<open>pc + length - 1\<close>, the entry is not empty, \<open>pc + length\<close>
  does not wrap around \<open>2^32\<close> and no earlier entry is hit, \<open>lightrec_rw\<close> serves the
  access from that entry. When the address an entry is matched against is \<open>pc + length\<close>,
  \<open>lightrec_rw\<close> passes over the entry: it does what it does on the map without it.
\<close>

theorem rw_resolution:
  fixes mem_map pre post :: "('j, 'r) lightrec_mem_map list"
    and state :: "('j, 'r) lightrec_state" and op' :: opcode and base data a :: u32
    and m :: "('j, 'r) lightrec_mem_map"
  defines "addr \<equiv> base + scast (i_imm op')"
  shows "lightrec_rw mem_map state op' base data =
     (case resolve mem_map addr of
        None \<Rightarrow> (0, segfault_cb state addr)
      | Some e \<Rightarrow> rw_on_entry e state op' addr data)
   \<and> (resolve mem_map a = Some m \<longleftrightarrow>
        (\<exists>i < length mem_map. mem_map ! i = m \<and> entry_hit m a
           \<and> (\<forall>j < i. \<not> entry_hit (mem_map ! j) a)))
   \<and> (entry_hit m a \<longleftrightarrow>
        lightrec_mem_map.pc m \<le> matched_address m a
          \<and> matched_address m a < lightrec_mem_map.pc m + length' m)
   \<and> matched_address m a = (if ops m = None then kunseg a else a)
   \<and> (a < 0x80000000 \<longrightarrow> kunseg a = a)
   \<and> (length' m \<noteq> 0 \<and> unat (lightrec_mem_map.pc m) + unat (length' m) < 2 ^ 32
        \<and> matched_address m addr = lightrec_mem_map.pc m + length' m - 1
        \<and> (\<forall>e \<in> set pre. \<not> entry_hit e addr)
      \<longrightarrow> lightrec_rw (pre @ m # post) state op' base data = rw_on_entry m state op' addr data)
   \<and> (matched_address m addr = lightrec_mem_map.pc m + length' m
      \<longrightarrow> lightrec_rw (pre @ m # post) state op' base data =
          lightrec_rw (pre @ post) state op' base data)"
proof -
  have 1: "lightrec_rw ms state op' base data =
     (case resolve ms addr of
        None \<Rightarrow> (0, segfault_cb state addr)
      | Some e \<Rightarrow> rw_on_entry e state op' addr data)" for ms
    unfolding addr_def by (rule lightrec_rw_resolve)
  have 3: "entry_hit m a \<longleftrightarrow>
        lightrec_mem_map.pc m \<le> matched_address m a
          \<and> matched_address m a < lightrec_mem_map.pc m + length' m"
    by (simp add: entry_hit_matched region_contains_def)
  have 4: "matched_address m a = (if ops m = None then kunseg a else a)"
    by (simp add: matched_address_def split: option.splits)
  have 6: "lightrec_rw (pre @ m # post) state op' base data = rw_on_entry m state op' addr data"
    if "length' m \<noteq> 0" "unat (lightrec_mem_map.pc m) + unat (length' m) < 2 ^ 32"
      "matched_address m addr = lightrec_mem_map.pc m + length' m - 1"
      "\<forall>e \<in> set pre. \<not> entry_hit e addr"
  proof -
    have "entry_hit m addr"
      using boundary_last [OF that(1,2)] that(3) by (simp add: entry_hit_matched)
    then show ?thesis
      by (simp add: 1 resolve_append_hit [OF that(4)])
  qed
  have 7: "lightrec_rw (pre @ m # post) state op' base data =
          lightrec_rw (pre @ post) state op' base data"
    if "matched_address m addr = lightrec_mem_map.pc m + length' m"
  proof -
    have "\<not> entry_hit m addr"
      using boundary_end [of m] that by (simp add: entry_hit_matched)
    then show ?thesis
      by (simp add: 1 resolve_append_miss)
  qed
  show ?thesis
    using 1 [of mem_map] resolve_Some_iff [of mem_map a m] 3 4 kunseg_low [of a] 6 7
    by blast
qed

text \<open>
  The last byte of the RAM of the small machine, reached through kseg0 past the I/O
  window, and the address after it, where the RAM is passed over and nothing is left.
\<close>

theorem rw_resolution_witness:
  "lightrec_rw example_map boundary_state (example_op OP_LBU 0) 0x80000FFF 0
     = (0x5A, boundary_state)
   \<and> lightrec_rw example_map boundary_state (example_op OP_LBU 0) 0x80001000 0
     = (0, segfault_cb boundary_state 0x80001000)
   \<and> resolve example_map 0x80000FFF = Some example_ram"
proof -
  have m: "example_map = [example_io] @ example_ram # []" by (simp add: example_map_def)
  have i: "x + scast (i_imm (example_op OP_LBU 0)) = (x :: u32)" for x
    by (simp add: example_op_def)
  have h: "length' example_ram \<noteq> 0
      \<and> unat (lightrec_mem_map.pc example_ram) + unat (length' example_ram) < 2 ^ 32"
    by (simp add: example_defs)
  have l: "matched_address example_ram 0x80000FFF
      = lightrec_mem_map.pc example_ram + length' example_ram - 1"
    by (simp add: matched_address_def kunseg_def example_defs)
  have e: "matched_address example_ram 0x80001000
      = lightrec_mem_map.pc example_ram + length' example_ram"
    by (simp add: matched_address_def kunseg_def example_defs)
  have p: "\<forall>e \<in> set [example_io]. \<not> entry_hit e 0x80000FFF"
    by (simp add: entry_hit_def region_contains_def example_defs)
  note t1 = rw_resolution [where pre = "[example_io]" and m = example_ram and post = "[]"
      and state = boundary_state and op' = "example_op OP_LBU 0" and base = "0x80000FFF"
      and data = 0 and mem_map = example_map and a = "0x80000FFF"]
  note t2 = rw_resolution [where pre = "[example_io]" and m = example_ram and post = "[]"
      and state = boundary_state and op' = "example_op OP_LBU 0" and base = "0x80001000"
      and data = 0 and mem_map = example_map and a = "0x80001000"]
  have "lightrec_rw example_map boundary_state (example_op OP_LBU 0) 0x80000FFF 0
      = rw_on_entry example_ram boundary_state (example_op OP_LBU 0) 0x80000FFF 0"
    using t1 h l p unfolding i m by blast
  moreover have "rw_on_entry example_ram boundary_state (example_op OP_LBU 0) 0x80000FFF 0
      = (0x5A, boundary_state)"
    by (simp add: example_defs boundary_state_def rw_on_entry_def rw_direct_def load_u8_def
        store_u8_def host_address_def kunseg_def)
  moreover have "lightrec_rw example_map boundary_state (example_op OP_LBU 0) 0x80001000 0
      = lightrec_rw ([example_io] @ []) boundary_state (example_op OP_LBU 0) 0x80001000 0"
    using t2 e unfolding i m by blast
  moreover have "lightrec_rw [example_io] boundary_state (example_op OP_LBU 0) 0x80001000 0
      = (0, segfault_cb boundary_state 0x80001000)"
    by (simp add: lightrec_rw_def kunseg_def example_defs)
  moreover have "resolve example_map 0x80000FFF = Some example_ram"
    using t1 by (simp add: example_defs resolve_def entry_hit_def region_contains_def kunseg_def)
  ultimately show ?thesis by simp
qed

text \<open>
  Claim C3 as stated fails in both directions. A load at the guest address
  \<open>pc + length - 1\<close> is a segmentation fault on an MMIO entry that ends at the top of
  the address space, where the \<open>u32\<close> sum \<open>pc + length\<close> is 0, on an empty entry, and on
  an entry without ops placed at \<open>0x80000000\<close>, which is matched on addresses after
  \<open>kunseg\<close>. A load at the guest address \<open>pc + length\<close> is served by an entry without ops
  that covers \<open>[0, 0x80000000)\<close>.
\<close>

theorem rw_resolution_counterexample:
  "lightrec_rw [\<lparr>lightrec_mem_map.pc = 0xFFFF0000, length' = 0x10000, address = 0x10000,
                 ops = Some example_io_ops\<rparr>]
      example_state (example_op OP_LW 0) 0xFFFFFFFF 0
     = (0, segfault_cb example_state 0xFFFFFFFF)
   \<and> lightrec_rw [\<lparr>lightrec_mem_map.pc = 0x1000, length' = 0, address = 0x10000, ops = None\<rparr>]
      example_state (example_op OP_LW 0) 0xFFF 0
     = (0, segfault_cb example_state 0xFFF)
   \<and> lightrec_rw [\<lparr>lightrec_mem_map.pc = 0x80000000, length' = 0x1000, address = 0x10000,
                   ops = None\<rparr>]
      example_state (example_op OP_LW 0) 0x80000FFF 0
     = (0, segfault_cb example_state 0x80000FFF)
   \<and> lightrec_rw [\<lparr>lightrec_mem_map.pc = 0, length' = 0x80000000, address = 0x10000,
                   ops = None\<rparr>]
      scenario_state (example_op OP_LW 0) 0x80000000 0
     = (0xAABBCCDD, scenario_state)"
  by (simp add: lightrec_rw_def kunseg_def example_op_def rw_direct_def scenario_state_def
      load_store_u32)

section \<open>Segmentation faults\<close>

text \<open>
  Claim C4. When no entry of the map contains the effective address \<open>base + imm\<close>
  (sign-extended), \<open>lightrec_rw\<close> returns 0 and the state differs from the one it was
  given in exactly three fields: \<open>stop\<close> is true, the exit flags are
  \<open>LIGHTREC_EXIT_SEGFAULT\<close>, and the log has one more line, carrying the effective
  address.
\<close>

theorem segfault:
  assumes "\<forall>m \<in> set mem_map. \<not> entry_hit m (base + scast (i_imm op'))"
  shows "lightrec_rw mem_map state op' base data =
     (0, state\<lparr>stop := True,
              block_exit_flags := LIGHTREC_EXIT_SEGFAULT,
              log := log state @ [Segfault_invalid_load_store (base + scast (i_imm op'))]\<rparr>)"
  using assms by (simp add: lightrec_rw_resolve resolve_None_iff [symmetric] segfault_cb_def)

text \<open>A load at \<open>0xDEADBEF0 - 1\<close> on the small machine.\<close>

theorem segfault_witness:
  "lightrec_rw example_map example_state (example_op OP_LW 0xFFFF) 0xDEADBEF0 0 =
     (0, example_state\<lparr>stop := True,
              block_exit_flags := LIGHTREC_EXIT_SEGFAULT,
              log := [Segfault_invalid_load_store 0xDEADBEEF]\<rparr>)"
proof -
  have i: "0xDEADBEF0 + scast (i_imm (example_op OP_LW 0xFFFF)) = (0xDEADBEEF :: u32)"
    by (simp add: example_defs)
  have "\<forall>m \<in> set example_map. \<not> entry_hit m (0xDEADBEF0 + scast (i_imm (example_op OP_LW 0xFFFF)))"
    unfolding i by (simp add: example_defs entry_hit_def region_contains_def kunseg_def)
  from segfault [OF this, of example_state 0] show ?thesis
    unfolding i by (simp add: example_state_def)
qed

section \<open>Byte and halfword loads\<close>

lemmas resolve_defs = resolve_def entry_hit_def region_contains_def kunseg_def

lemma sint_scast_8_32: "sint (scast (b :: u8) :: u32) = sint b"
  by (simp add: sint_up_scast is_up)

lemma sint_scast_16_32: "sint (scast (b :: u16) :: u32) = sint b"
  by (simp add: sint_up_scast is_up)

lemma uint_ucast_8_32: "uint (ucast (b :: u8) :: u32) = uint b"
  by (simp add: uint_up_ucast is_up)

lemma uint_ucast_16_32: "uint (ucast (b :: u16) :: u32) = uint b"
  by (simp add: uint_up_ucast is_up)

lemma rw_resolved:
  "resolve ms (base + scast (i_imm op')) = Some m \<Longrightarrow>
   lightrec_rw ms st op' base data = rw_on_entry m st op' (base + scast (i_imm op')) data"
  by (simp add: lightrec_rw_resolve)

text \<open>
  Claim C9. On the entry \<open>lightrec_rw\<close> resolves to, \<open>LB\<close> returns the sign extension of
  the loaded byte and \<open>LBU\<close> its zero extension, \<open>LH\<close> the sign extension of the loaded
  halfword and \<open>LHU\<close> its zero extension: the result read as a signed (unsigned) 32-bit
  number is the byte or halfword read as a signed (unsigned) number. On a direct-memory
  entry the value is read from host memory and the state is unchanged; on an MMIO entry
  it is what the \<open>lb\<close> or \<open>lh\<close> callback returns. A byte \<open>0xFF\<close> gives \<open>0xFFFFFFFF\<close> under
  \<open>LB\<close> and \<open>0x000000FF\<close> under \<open>LBU\<close>.
\<close>

theorem load_extension:
  fixes mem_map :: "('j, 'r) lightrec_mem_map list" and state :: "('j, 'r) lightrec_state"
    and op' :: opcode and base data :: u32
  assumes "resolve mem_map (base + scast (i_imm op')) = Some m"
  defines "addr \<equiv> base + scast (i_imm op')"
  defines "r \<equiv> lightrec_rw mem_map state op' base data"
  shows "(ops m = None \<longrightarrow>
           (i_op op' = OP_LB \<longrightarrow>
              sint (fst r) = sint (load_u8 (mem state) (host_address m addr)) \<and> snd r = state) \<and>
           (i_op op' = OP_LBU \<longrightarrow>
              uint (fst r) = uint (load_u8 (mem state) (host_address m addr)) \<and> snd r = state) \<and>
           (i_op op' = OP_LH \<longrightarrow>
              sint (fst r) = sint (load_u16 (mem state) (host_address m addr)) \<and> snd r = state) \<and>
           (i_op op' = OP_LHU \<longrightarrow>
              uint (fst r) = uint (load_u16 (mem state) (host_address m addr)) \<and> snd r = state) \<and>
           (load_u8 (mem state) (host_address m addr) = 0xFF \<longrightarrow>
              (i_op op' = OP_LB \<longrightarrow> fst r = 0xFFFFFFFF) \<and>
              (i_op op' = OP_LBU \<longrightarrow> fst r = 0x000000FF)))
       \<and> (\<forall>ops'. ops m = Some ops' \<longrightarrow>
           (i_op op' = OP_LB \<longrightarrow>
              sint (fst r) = sint (fst (lb ops' state op' addr)) \<and>
              snd r = snd (lb ops' state op' addr)) \<and>
           (i_op op' = OP_LBU \<longrightarrow>
              uint (fst r) = uint (fst (lb ops' state op' addr)) \<and>
              snd r = snd (lb ops' state op' addr)) \<and>
           (i_op op' = OP_LH \<longrightarrow>
              sint (fst r) = sint (fst (lh ops' state op' addr)) \<and>
              snd r = snd (lh ops' state op' addr)) \<and>
           (i_op op' = OP_LHU \<longrightarrow>
              uint (fst r) = uint (fst (lh ops' state op' addr)) \<and>
              snd r = snd (lh ops' state op' addr)) \<and>
           (fst (lb ops' state op' addr) = 0xFF \<longrightarrow>
              (i_op op' = OP_LB \<longrightarrow> fst r = 0xFFFFFFFF) \<and>
              (i_op op' = OP_LBU \<longrightarrow> fst r = 0x000000FF)))"
proof -
  have r: "r = rw_on_entry m state op' addr data"
    unfolding r_def addr_def using assms(1) by (rule rw_resolved)
  have direct: "ops m = None \<Longrightarrow> r = rw_direct state op' (host_address m addr) (kunseg addr) data"
    by (simp add: r rw_on_entry_def)
  have mmio: "\<And>ops'. ops m = Some ops' \<Longrightarrow> r = lightrec_rw_ops state op' ops' addr data"
    by (simp add: r rw_on_entry_def)
  show ?thesis
  proof (cases "ops m")
    case None
    then show ?thesis
      by (auto simp add: direct rw_direct_def sint_scast_8_32 sint_scast_16_32
          uint_ucast_8_32 uint_ucast_16_32)
  next
    case (Some ops')
    then show ?thesis
      by (auto simp add: mmio lightrec_rw_ops_def sint_scast_8_32 sint_scast_16_32
          uint_ucast_8_32 uint_ucast_16_32 split: prod.splits)
  qed
qed

text \<open>
  The byte \<open>0xFF\<close> read through the I/O window of the small machine and from its RAM.
\<close>

theorem load_extension_witness:
  "fst (lightrec_rw example_map example_state (example_op OP_LB 0) 0x1F801000 0) = 0xFFFFFFFF
   \<and> fst (lightrec_rw example_map example_state (example_op OP_LBU 0) 0x1F801000 0) = 0xFF
   \<and> fst (lightrec_rw example_map (example_state\<lparr>mem := store_u8 (mem example_state) 0x10003 0xFF\<rparr>)
          (example_op OP_LB 3) 0 0) = 0xFFFFFFFF
   \<and> fst (lightrec_rw example_map (example_state\<lparr>mem := store_u8 (mem example_state) 0x10003 0xFF\<rparr>)
          (example_op OP_LBU 3) 0 0) = 0xFF"
proof -
  have io: "resolve example_map (0x1F801000 + scast (i_imm (example_op c 0))) = Some example_io" for c
    by (simp add: example_defs resolve_defs)
  have ram: "resolve example_map (0 + scast (i_imm (example_op c 3))) = Some example_ram" for c
    by (simp add: example_defs resolve_defs)
  have o: "ops example_io = Some example_io_ops" "ops example_ram = None"
    by (simp_all add: example_defs)
  have b: "fst (lb example_io_ops s p a) = 0xFF" for s :: "(u32 list, unit) lightrec_state" and p a
    by (simp add: example_io_ops_def)
  have h: "host_address example_ram 3 = 0x10003"
    by (simp add: example_defs host_address_def kunseg_def)
  have v: "load_u8 (store_u8 (mem example_state) 0x10003 0xFF) 0x10003 = 0xFF"
    by (simp add: load_u8_def store_u8_def)
  have c: "i_op (example_op c i) = c" "i_imm (example_op c i) = i" for c i
    by (simp_all add: example_op_def)
  show ?thesis
    using load_extension [OF io [of OP_LB], of example_state 0]
      load_extension [OF io [of OP_LBU], of example_state 0]
      load_extension [OF ram [of OP_LB],
        of "example_state\<lparr>mem := store_u8 (mem example_state) 0x10003 0xFF\<rparr>" 0]
      load_extension [OF ram [of OP_LBU],
        of "example_state\<lparr>mem := store_u8 (mem example_state) 0x10003 0xFF\<rparr>" 0]
    by (simp add: o b h v c)
qed

section \<open>Unaligned word opcodes on an MMIO region\<close>

text \<open>
  Claim C10. When \<open>lightrec_rw\<close> resolves the address to an MMIO entry, \<open>SWL\<close> and
  \<open>SWR\<close> call the \<open>sw\<close> callback with the effective address and the unshifted
  \<open>data\<close> and return 0; \<open>LWL\<close> and \<open>LWR\<close> return what the \<open>lw\<close> callback returns,
  whatever \<open>data\<close> is.
\<close>

theorem mmio_unaligned:
  fixes mem_map :: "('j, 'r) lightrec_mem_map list" and state :: "('j, 'r) lightrec_state"
    and op' :: opcode and base data :: u32
  defines "addr \<equiv> base + scast (i_imm op')"
  assumes "resolve mem_map addr = Some m" and "ops m = Some ops'"
  shows "(i_op op' = OP_SWL \<or> i_op op' = OP_SWR \<longrightarrow>
            lightrec_rw mem_map state op' base data = (0, sw ops' state op' addr data))
       \<and> (i_op op' = OP_LWL \<or> i_op op' = OP_LWR \<longrightarrow>
            lightrec_rw mem_map state op' base data = lw ops' state op' addr)"
proof -
  have "lightrec_rw mem_map state op' base data = lightrec_rw_ops state op' ops' addr data"
    using assms(2,3) unfolding addr_def by (simp add: rw_resolved rw_on_entry_def)
  then show ?thesis by (auto simp add: lightrec_rw_ops_def)
qed

text \<open>The four opcodes on the I/O window of the small machine.\<close>

theorem mmio_unaligned_witness:
  "lightrec_rw example_map example_state (example_op OP_SWL 1) 0x1F801000 0x11223344
     = (0, example_state\<lparr>next_pc := 0x11223344\<rparr>)
   \<and> lightrec_rw example_map example_state (example_op OP_SWR 1) 0x1F801000 0x11223344
     = (0, example_state\<lparr>next_pc := 0x11223344\<rparr>)
   \<and> lightrec_rw example_map example_state (example_op OP_LWL 1) 0x1F801000 0x11223344
     = (0xCAFEF00D, example_state)
   \<and> lightrec_rw example_map example_state (example_op OP_LWR 1) 0x1F801000 0x11223344
     = (0xCAFEF00D, example_state)"
proof -
  have io: "resolve example_map (0x1F801000 + scast (i_imm (example_op c 1))) = Some example_io" for c
    by (simp add: example_defs resolve_defs)
  have o: "ops example_io = Some example_io_ops"
    by (simp add: example_defs)
  have c: "i_op (example_op c i) = c" for c i by (simp add: example_op_def)
  show ?thesis
    using mmio_unaligned [OF io [of OP_SWL] o, where state = example_state and data = "0x11223344"]
      mmio_unaligned [OF io [of OP_SWR] o, where state = example_state and data = "0x11223344"]
      mmio_unaligned [OF io [of OP_LWL] o, where state = example_state and data = "0x11223344"]
      mmio_unaligned [OF io [of OP_LWR] o, where state = example_state and data = "0x11223344"]
    by (simp add: c example_io_ops_def)
qed

section \<open>Unaligned stores to direct memory\<close>

lemma bit_GENMASK: "h < 64 \<Longrightarrow> bit (GENMASK h l) n \<longleftrightarrow> l \<le> n \<and> n \<le> h"
  by (auto simp add: GENMASK_def bit_simps)

lemma GENMASK32: "(ucast (GENMASK 31 l) :: u32) = NOT (mask l)"
  by (rule bit_word_eqI) (auto simp add: bit_GENMASK bit_simps)

lemma int_mask: "(push_bit n 1 - 1 :: u32) = mask n"
  by (simp add: mask_eq_exp_minus_1)

lemma and3_cases: "(k :: u32) AND 3 = 0 \<or> k AND 3 = 1 \<or> k AND 3 = 2 \<or> k AND 3 = 3"
proof -
  have e: "k AND 3 = take_bit 2 k" by (simp add: take_bit_eq_mask mask_eq_exp_minus_1)
  have "unat (take_bit 2 k) = take_bit 2 (unat k)" by (simp add: unsigned_take_bit_eq)
  moreover have "take_bit 2 (unat k) < 2 ^ 2" by (rule take_bit_nat_less_exp)
  ultimately have "unat (k AND 3) < 4" using e by simp
  then have "unat (k AND 3) = 0 \<or> unat (k AND 3) = 1 \<or> unat (k AND 3) = 2 \<or> unat (k AND 3) = 3"
    by arith
  then show ?thesis
    unfolding word_unat_eq_iff by simp
qed

lemma swl_word_props:
  fixes shift data old :: u32
  assumes "shift = 0 \<or> shift = 1 \<or> shift = 2 \<or> shift = 3"
  defines "s \<equiv> unat shift"
  defines "new \<equiv> swl_word shift data old"
  shows "high_bytes_in_low (s + 1) data new"
    and "new AND ucast (GENMASK 31 (s * 8 + 9)) = old AND ucast (GENMASK 31 (s * 8 + 9))"
    and "new AND NOT (ucast (GENMASK 31 (s * 8 + 9))) = drop_bit (8 * (3 - s)) data"
proof -
  from assms(1) consider "shift = 0" | "shift = 1" | "shift = 2" | "shift = 3" by blast
  then have "high_bytes_in_low (s + 1) data new
     \<and> new AND ucast (GENMASK 31 (s * 8 + 9)) = old AND ucast (GENMASK 31 (s * 8 + 9))
     \<and> new AND NOT (ucast (GENMASK 31 (s * 8 + 9))) = drop_bit (8 * (3 - s)) data"
  proof cases
    case 1
    show ?thesis
      unfolding s_def new_def swl_word_def high_bytes_in_low_def GENMASK32 1
      by (auto simp add: bit_eq_iff bit_simps dest: bit_imp_le_length)
  next
    case 2
    show ?thesis
      unfolding s_def new_def swl_word_def high_bytes_in_low_def GENMASK32 2
      by (auto simp add: bit_eq_iff bit_simps dest: bit_imp_le_length)
  next
    case 3
    show ?thesis
      unfolding s_def new_def swl_word_def high_bytes_in_low_def GENMASK32 3
      by (auto simp add: bit_eq_iff bit_simps dest: bit_imp_le_length)
  next
    case 4
    show ?thesis
      unfolding s_def new_def swl_word_def high_bytes_in_low_def GENMASK32 4
      by (auto simp add: bit_eq_iff bit_simps dest: bit_imp_le_length)
  qed
  then show "high_bytes_in_low (s + 1) data new"
    and "new AND ucast (GENMASK 31 (s * 8 + 9)) = old AND ucast (GENMASK 31 (s * 8 + 9))"
    and "new AND NOT (ucast (GENMASK 31 (s * 8 + 9))) = drop_bit (8 * (3 - s)) data"
    by blast+
qed

lemma swr_word_props:
  fixes shift data old :: u32
  assumes "shift = 0 \<or> shift = 1 \<or> shift = 2 \<or> shift = 3"
  defines "s \<equiv> unat shift"
  defines "new \<equiv> swr_word shift data old"
  shows "low_bytes_in_high (4 - s) data new"
    and "new AND mask (s * 8) = old AND mask (s * 8)"
    and "new AND NOT (mask (s * 8)) = push_bit (8 * s) data"
proof -
  from assms(1) consider "shift = 0" | "shift = 1" | "shift = 2" | "shift = 3" by blast
  then have "low_bytes_in_high (4 - s) data new
     \<and> new AND mask (s * 8) = old AND mask (s * 8)
     \<and> new AND NOT (mask (s * 8)) = push_bit (8 * s) data"
  proof cases
    case 1
    show ?thesis
      unfolding s_def new_def swr_word_def low_bytes_in_high_def int_mask 1
      by (auto simp add: bit_eq_iff bit_simps dest: bit_imp_le_length)
  next
    case 2
    show ?thesis
      unfolding s_def new_def swr_word_def low_bytes_in_high_def int_mask 2
      by (auto simp add: bit_eq_iff bit_simps dest: bit_imp_le_length)
  next
    case 3
    show ?thesis
      unfolding s_def new_def swr_word_def low_bytes_in_high_def int_mask 3
      by (auto simp add: bit_eq_iff bit_simps dest: bit_imp_le_length)
  next
    case 4
    show ?thesis
      unfolding s_def new_def swr_word_def low_bytes_in_high_def int_mask 4
      by (auto simp add: bit_eq_iff bit_simps dest: bit_imp_le_length)
  qed
  then show "low_bytes_in_high (4 - s) data new"
    and "new AND mask (s * 8) = old AND mask (s * 8)"
    and "new AND NOT (mask (s * 8)) = push_bit (8 * s) data"
    by blast+
qed

lemma rw_direct_SWL:
  "i_op op' = OP_SWL \<Longrightarrow>
   rw_direct st op' h k data =
     (0, st\<lparr>mem := store_u32 (mem st) (h AND NOT 3)
                 (swl_word (k AND 3) data (load_u32 (mem st) (h AND NOT 3)))\<rparr>)"
  by (simp add: rw_direct_def swl_word_def Let_def)

lemma rw_direct_SWR:
  "i_op op' = OP_SWR \<Longrightarrow>
   rw_direct st op' h k data =
     (0, st\<lparr>mem := store_u32 (mem st) (h AND NOT 3)
                 (swr_word (k AND 3) data (load_u32 (mem st) (h AND NOT 3)))\<rparr>)"
  by (simp add: rw_direct_def swr_word_def Let_def)

lemmas eval_defs =
  lightrec_rw_def kunseg_def rw_direct_def GENMASK32 mask_eq_exp_minus_1
  word_le_nat_alt word_less_nat_alt

text \<open>
  Claim C1, as amended. On a direct-memory entry, with \<open>shift = kaddr & 3\<close> and the word
  at the host address rounded down to a multiple of 4, \<open>lightrec_rw\<close> returns 0 and
  changes that word only. \<open>SWL\<close> stores the high \<open>shift + 1\<close> bytes of \<open>data\<close> into the
  low bytes of the word and preserves exactly the bits \<open>GENMASK(31, shift * 8 + 9)\<close> of
  the prior word: these bits are kept, and the others are those of
  \<open>data >> ((3 - shift) * 8)\<close>. \<open>SWR\<close> stores the low \<open>4 - shift\<close> bytes of \<open>data\<close> into
  the high bytes of the word and preserves exactly the low \<open>shift * 8\<close> bits of the prior
  word: these bits are kept, and the others are those of \<open>data << (shift * 8)\<close>.
\<close>

theorem unaligned_store_direct:
  fixes mem_map :: "('j, 'r) lightrec_mem_map list" and state :: "('j, 'r) lightrec_state"
    and op' :: opcode and base data :: u32 and m :: "('j, 'r) lightrec_mem_map"
  defines "addr \<equiv> base + scast (i_imm op')"
  defines "shift \<equiv> unat (kunseg addr AND 3)"
  defines "w \<equiv> host_address m addr AND NOT 3"
  defines "old \<equiv> load_u32 (mem state) w"
  defines "r \<equiv> lightrec_rw mem_map state op' base data"
  defines "new \<equiv> load_u32 (mem (snd r)) w"
  defines "keep_l \<equiv> (ucast (GENMASK 31 (shift * 8 + 9)) :: u32)"
  defines "keep_r \<equiv> (mask (shift * 8) :: u32)"
  assumes "resolve mem_map addr = Some m" and "ops m = None"
  shows "(i_op op' = OP_SWL \<longrightarrow>
            r = (0, state\<lparr>mem := store_u32 (mem state) w new\<rparr>)
          \<and> high_bytes_in_low (shift + 1) data new
          \<and> new AND keep_l = old AND keep_l
          \<and> new AND NOT keep_l = drop_bit (8 * (3 - shift)) data)
       \<and> (i_op op' = OP_SWR \<longrightarrow>
            r = (0, state\<lparr>mem := store_u32 (mem state) w new\<rparr>)
          \<and> low_bytes_in_high (4 - shift) data new
          \<and> new AND keep_r = old AND keep_r
          \<and> new AND NOT keep_r = push_bit (8 * shift) data)"
proof -
  have d: "r = rw_direct state op' (host_address m addr) (kunseg addr) data"
    using assms(9,10) unfolding r_def addr_def by (simp add: rw_resolved rw_on_entry_def)
  note c = and3_cases [of "kunseg addr"]
  have l: ?thesis if "i_op op' = OP_SWL" "i_op op' \<noteq> OP_SWR"
  proof -
    have n: "new = swl_word (kunseg addr AND 3) data old"
      unfolding new_def old_def w_def d by (simp add: rw_direct_SWL that load_store_u32)
    have "r = (0, state\<lparr>mem := store_u32 (mem state) w new\<rparr>)"
      unfolding n unfolding d old_def w_def by (simp add: rw_direct_SWL that)
    then show ?thesis
      using that swl_word_props [OF c, of data old]
      unfolding n shift_def keep_l_def by simp
  qed
  have r: ?thesis if "i_op op' = OP_SWR" "i_op op' \<noteq> OP_SWL"
  proof -
    have n: "new = swr_word (kunseg addr AND 3) data old"
      unfolding new_def old_def w_def d by (simp add: rw_direct_SWR that load_store_u32)
    have "r = (0, state\<lparr>mem := store_u32 (mem state) w new\<rparr>)"
      unfolding n unfolding d old_def w_def by (simp add: rw_direct_SWR that)
    then show ?thesis
      using that swr_word_props [OF c, of data old]
      unfolding n shift_def keep_r_def by simp
  qed
  show ?thesis
  proof (cases "i_op op' = OP_SWL")
    case True
    then show ?thesis using l by simp
  next
    case False
    then show ?thesis using r by (cases "i_op op' = OP_SWR") simp_all
  qed
qed

text \<open>
  The specification's scenario on the small machine: the word is \<open>0xAABBCCDD\<close>, the
  address has \<open>shift = 1\<close> and \<open>data\<close> is \<open>0x11223344\<close>.
\<close>

theorem unaligned_store_direct_witness:
  "load_u32 (mem (snd (lightrec_rw example_map scenario_state (example_op OP_SWL 1) 0 0x11223344)))
      0x10000 = 0xAABA1122
   \<and> high_bytes_in_low 2 0x11223344
       (load_u32 (mem (snd (lightrec_rw example_map scenario_state (example_op OP_SWL 1) 0 0x11223344)))
          0x10000)
   \<and> load_u32 (mem (snd (lightrec_rw example_map scenario_state (example_op OP_SWR 1) 0 0x11223344)))
      0x10000 = 0x223344DD
   \<and> low_bytes_in_high 3 0x11223344
       (load_u32 (mem (snd (lightrec_rw example_map scenario_state (example_op OP_SWR 1) 0 0x11223344)))
          0x10000)"
proof -
  have a: "0 + scast (i_imm (example_op c 1)) = (1 :: u32)" for c
    by (simp add: example_op_def)
  have r: "resolve example_map (0 + scast (i_imm (example_op c 1))) = Some example_ram" for c
    unfolding a by (simp add: example_defs resolve_defs word_le_nat_alt word_less_nat_alt)
  have o: "ops example_ram = None" by (simp add: example_defs)
  have c: "i_op (example_op c i) = c" for c i by (simp add: example_op_def)
  have k: "unat (kunseg 1 AND 3) = 1" by (simp add: kunseg_def word_le_nat_alt)
  have h: "host_address example_ram 1 AND NOT 3 = 0x10000"
    by (simp add: host_address_def example_defs kunseg_def word_le_nat_alt)
  have l: "load_u32 (mem (snd (lightrec_rw example_map scenario_state (example_op OP_SWL 1) 0 0x11223344)))
      0x10000 = 0xAABA1122"
    by (simp add: example_defs eval_defs load_store_u32)
  have r': "load_u32 (mem (snd (lightrec_rw example_map scenario_state (example_op OP_SWR 1) 0 0x11223344)))
      0x10000 = 0x223344DD"
    by (simp add: example_defs eval_defs load_store_u32)
  have "high_bytes_in_low (1 + 1) 0x11223344
       (load_u32 (mem (snd (lightrec_rw example_map scenario_state (example_op OP_SWL 1) 0 0x11223344)))
          0x10000)"
    using unaligned_store_direct [OF r [of OP_SWL] o, where state = scenario_state
        and data = "0x11223344"]
    unfolding a k h c by simp
  moreover have "low_bytes_in_high (4 - 1) 0x11223344
       (load_u32 (mem (snd (lightrec_rw example_map scenario_state (example_op OP_SWR 1) 0 0x11223344)))
          0x10000)"
    using unaligned_store_direct [OF r [of OP_SWR] o, where state = scenario_state
        and data = "0x11223344"]
    unfolding a k h c by simp
  ultimately show ?thesis using l r' by (simp add: numeral_2_eq_2)
qed

text \<open>
  Claim C1 as stated has the byte counts the other way round: \<open>4 - shift\<close> bytes for
  \<open>SWL\<close> and \<open>shift + 1\<close> bytes for \<open>SWR\<close>. In the scenario \<open>SWL\<close> stores two bytes, not
  three, and \<open>SWR\<close> three, not two.
\<close>

theorem unaligned_store_direct_counterexample:
  "load_u32 (mem scenario_state) 0x10000 = 0xAABBCCDD
   \<and> load_u32 (mem (snd (lightrec_rw example_map scenario_state (example_op OP_SWL 1) 0 0x11223344)))
      0x10000 = 0xAABA1122
   \<and> \<not> high_bytes_in_low (4 - 1) 0x11223344
       (load_u32 (mem (snd (lightrec_rw example_map scenario_state (example_op OP_SWL 1) 0 0x11223344)))
          0x10000)
   \<and> load_u32 (mem (snd (lightrec_rw example_map scenario_state (example_op OP_SWR 1) 0 0x11223344)))
      0x10000 = 0x223344DD
   \<and> \<not> low_bytes_in_high (1 + 1) 0x11223344
       (load_u32 (mem (snd (lightrec_rw example_map scenario_state (example_op OP_SWR 1) 0 0x11223344)))
          0x10000)"
proof -
  have l: "load_u32 (mem (snd (lightrec_rw example_map scenario_state (example_op OP_SWL 1) 0 0x11223344)))
      0x10000 = 0xAABA1122"
    by (simp add: example_defs eval_defs load_store_u32)
  have r: "load_u32 (mem (snd (lightrec_rw example_map scenario_state (example_op OP_SWR 1) 0 0x11223344)))
      0x10000 = 0x223344DD"
    by (simp add: example_defs eval_defs load_store_u32)
  have o: "load_u32 (mem scenario_state) 0x10000 = 0xAABBCCDD"
    by (simp add: example_defs load_store_u32)
  show ?thesis unfolding l r o
    by (simp add: high_bytes_in_low_def low_bytes_in_high_def)
qed

section \<open>The unaligned round trip\<close>

lemma round_trip_words:
  fixes shift v m0 :: u32
  assumes "shift = 0 \<or> shift = 1 \<or> shift = 2 \<or> shift = 3"
  defines "m2 \<equiv> swr_word shift v (swl_word shift v m0)"
  shows "lwr_word shift (lwl_word shift 0 m2) m2 =
           (if shift = 0 then v else (v AND mask 24) OR push_bit 24 v)"
proof -
  from assms(1) consider "shift = 0" | "shift = 1" | "shift = 2" | "shift = 3" by blast
  then show ?thesis
  proof cases
    case 1
    show ?thesis
      unfolding m2_def lwr_word_def lwl_word_def swr_word_def swl_word_def int_mask GENMASK32 1
      by (rule bit_word_eqI) (auto simp add: bit_simps)
  next
    case 2
    show ?thesis
      unfolding m2_def lwr_word_def lwl_word_def swr_word_def swl_word_def int_mask GENMASK32 2
      by (rule bit_word_eqI) (auto simp add: bit_simps)
  next
    case 3
    show ?thesis
      unfolding m2_def lwr_word_def lwl_word_def swr_word_def swl_word_def int_mask GENMASK32 3
      by (rule bit_word_eqI) (auto simp add: bit_simps)
  next
    case 4
    show ?thesis
      unfolding m2_def lwr_word_def lwl_word_def swr_word_def swl_word_def int_mask GENMASK32 4
      by (rule bit_word_eqI) (auto simp add: bit_simps)
  qed
qed

lemma take_bit_2_sub:
  fixes a c :: u32
  assumes "take_bit 2 c = 0"
  shows "take_bit 2 (a - c) = take_bit 2 a"
proof -
  have c: "take_bit 2 (uint c) = 0"
    using assms by (metis unsigned_take_bit_eq uint_0_eq)
  have "uint (take_bit 2 (a - c)) = take_bit 2 (uint (a - c))"
    by (simp add: unsigned_take_bit_eq)
  also have "\<dots> = take_bit 2 (take_bit 32 (uint a - uint c))"
    by (simp add: uint_word_arith_bintrs)
  also have "\<dots> = take_bit 2 (uint a - uint c)"
    by simp
  also have "\<dots> = take_bit 2 (take_bit 2 (uint a) - take_bit 2 (uint c))"
    by (simp only: take_bit_diff)
  also have "\<dots> = uint (take_bit 2 a)"
    by (simp add: c unsigned_take_bit_eq)
  finally show ?thesis by (simp only: word_uint_eq_iff)
qed

lemma kunseg_AND_3: "kunseg a AND 3 = a AND 3"
proof -
  have m: "x AND 3 = take_bit 2 x" for x :: u32
    by (simp add: take_bit_eq_mask mask_eq_exp_minus_1)
  have "take_bit 2 (0xa0000000 :: u32) = 0" "take_bit 2 (0x80000000 :: u32) = 0"
    by (simp_all add: take_bit_eq_mod)
  then have "take_bit 2 (a - 0xa0000000) = take_bit 2 a" "take_bit 2 (a - 0x80000000) = take_bit 2 a"
    by (simp_all only: take_bit_2_sub)
  then show ?thesis by (simp add: kunseg_def m)
qed

lemma rw_direct_LWL:
  "i_op op' = OP_LWL \<Longrightarrow>
   rw_direct st op' h k data = (lwl_word (k AND 3) data (load_u32 (mem st) (h AND NOT 3)), st)"
  by (simp add: rw_direct_def lwl_word_def Let_def)

lemma rw_direct_LWR:
  "i_op op' = OP_LWR \<Longrightarrow>
   rw_direct st op' h k data = (lwr_word (k AND 3) data (load_u32 (mem st) (h AND NOT 3)), st)"
  by (simp add: rw_direct_def lwr_word_def Let_def)

text \<open>
  Claim C2, as amended. For a direct-memory address \<open>A\<close> and a 32-bit value \<open>v\<close>, the
  sequence \<open>SWL\<close> at \<open>A\<close> with \<open>v\<close>, \<open>SWR\<close> at \<open>A\<close> with \<open>v\<close>, \<open>LWL\<close> at \<open>A\<close> with 0,
  \<open>LWR\<close> at \<open>A\<close> with the result of \<open>LWL\<close> yields \<open>v\<close> when \<open>A & 3 = 0\<close>; when
  \<open>A & 3\<close> is 1, 2 or 3 it yields \<open>v\<close> with its most significant byte replaced by its
  least significant byte.
\<close>

theorem unaligned_round_trip_direct:
  fixes mem_map :: "('j, 'r) lightrec_mem_map list" and state :: "('j, 'r) lightrec_state"
    and op' :: opcode and base v :: u32 and m :: "('j, 'r) lightrec_mem_map"
  defines "A \<equiv> base + scast (i_imm op')"
  assumes "resolve mem_map A = Some m" and "ops m = None"
  shows "unaligned_round_trip mem_map state op' base v =
           (if A AND 3 = 0 then v else (v AND 0x00FFFFFF) OR push_bit 24 v)"
proof -
  define h where "h = host_address m A AND NOT 3"
  define old where "old = load_u32 (mem state) h"
  have d: "lightrec_rw mem_map s (op'\<lparr>i_op := c\<rparr>) base x =
      rw_direct s (op'\<lparr>i_op := c\<rparr>) (host_address m A) (kunseg A) x" for s c x
    using assms(2,3) unfolding A_def
    by (simp add: rw_resolved [of mem_map base "op'\<lparr>i_op := c\<rparr>" m] rw_on_entry_def)
  have "unaligned_round_trip mem_map state op' base v =
      lwr_word (A AND 3)
        (lwl_word (A AND 3) 0 (swr_word (A AND 3) v (swl_word (A AND 3) v old)))
        (swr_word (A AND 3) v (swl_word (A AND 3) v old))"
    unfolding unaligned_round_trip_def d
    by (simp add: rw_direct_SWL rw_direct_SWR rw_direct_LWL rw_direct_LWR load_store_u32
        kunseg_AND_3 h_def old_def)
  also have "\<dots> = (if A AND 3 = 0 then v else (v AND mask 24) OR push_bit 24 v)"
    by (rule round_trip_words) (rule and3_cases)
  finally show ?thesis by (simp add: mask_eq_exp_minus_1)
qed

text \<open>The round trip at an aligned address and at an address with \<open>shift = 3\<close>.\<close>

theorem unaligned_round_trip_direct_witness:
  "unaligned_round_trip example_map scenario_state (example_op OP_LW 0) 0x80000004 0x11223344
     = 0x11223344
   \<and> unaligned_round_trip example_map scenario_state (example_op OP_LW 3) 0x80000004 0x11223344
     = 0x44223344"
proof -
  have a: "0x80000004 + scast (i_imm (example_op c 0)) = (0x80000004 :: u32)"
    "0x80000004 + scast (i_imm (example_op c 3)) = (0x80000007 :: u32)" for c
    by (simp_all add: example_op_def)
  have r: "resolve example_map (0x80000004 + scast (i_imm (example_op c 0))) = Some example_ram"
    "resolve example_map (0x80000004 + scast (i_imm (example_op c 3))) = Some example_ram" for c
    unfolding a by (simp_all add: example_defs resolve_defs)
  have o: "ops example_ram = None" by (simp add: example_defs)
  show ?thesis
    using unaligned_round_trip_direct [OF r(1) o, where state = scenario_state and v = "0x11223344"]
      unaligned_round_trip_direct [OF r(2) o, where state = scenario_state and v = "0x11223344"]
    unfolding a by simp
qed

text \<open>
  Claim C2 as stated fails at every address that is not a multiple of 4: with
  \<open>shift = 1\<close> the value \<open>0x11223344\<close> comes back as \<open>0x44223344\<close>.
\<close>

theorem unaligned_round_trip_counterexample:
  "unaligned_round_trip example_map scenario_state (example_op OP_LW 1) 0 0x11223344 = 0x44223344
   \<and> unaligned_round_trip example_map scenario_state (example_op OP_LW 1) 0 0x11223344
       \<noteq> 0x11223344"
  by (simp add: unaligned_round_trip_def example_defs eval_defs load_store_u32)

section \<open>Kernel segments\<close>

lemma unat_kunseg:
  "unat (kunseg a) =
     (if 0xA0000000 \<le> unat a then unat a - 0xA0000000
      else if 0x80000000 \<le> unat a then unat a - 0x80000000
      else unat a)"
  by (simp add: kunseg_def word_le_nat_alt unat_sub)

lemma kunseg_kseg:
  fixes x :: u32
  assumes "x < 0x20000000"
  shows "kunseg (0xA0000000 + x) = x" and "kunseg (0x80000000 + x) = x"
proof -
  have x: "unat x < 0x20000000" using assms by (simp add: word_less_nat_alt)
  have a: "unat (0xA0000000 + x) = 0xA0000000 + unat x"
    using x by (simp add: unat_word_ariths)
  have b: "unat (0x80000000 + x) = 0x80000000 + unat x"
    using x by (simp add: unat_word_ariths)
  show "kunseg (0xA0000000 + x) = x"
    unfolding word_unat_eq_iff unat_kunseg a by simp
  show "kunseg (0x80000000 + x) = x"
    unfolding word_unat_eq_iff unat_kunseg b using x by simp
qed

lemma resolve_direct_kunseg:
  assumes "kunseg a = kunseg b"
    and "resolve ms a = Some m" and "ops m = None"
    and "resolve ms b = Some m'" and "ops m' = None"
  shows "m' = m"
  using assms(2-5)
proof (induction ms)
  case Nil
  then show ?case by (simp add: resolve_def)
next
  case (Cons e ms)
  show ?case
  proof (cases "ops e")
    case None
    then have "entry_hit e a = entry_hit e b"
      by (simp add: entry_hit_def assms(1))
    with Cons show ?thesis
      by (cases "entry_hit e b") (simp_all add: resolve_def)
  next
    case (Some ops')
    have "\<not> entry_hit e a" using Cons.prems(1,2) Some
      by (auto simp add: resolve_def split: if_splits)
    moreover have "\<not> entry_hit e b" using Cons.prems(3,4) Some
      by (auto simp add: resolve_def split: if_splits)
    ultimately show ?thesis using Cons by (simp add: resolve_def)
  qed
qed

text \<open>
  Claim C5. \<open>kunseg a\<close> is \<open>a - 0xA0000000\<close> when \<open>a \<ge> 0xA0000000\<close>, else
  \<open>a - 0x80000000\<close> when \<open>a \<ge> 0x80000000\<close>, else \<open>a\<close>, with no wrap-around. So the
  addresses \<open>0xA0000000 + x\<close> and \<open>0x80000000 + x\<close>, for an offset \<open>x\<close> below the size
  \<open>0x20000000\<close> of a segment, both unsegment to \<open>x\<close>; and when both resolve to
  direct memory they resolve to the same entry and the same host byte: a byte stored
  by \<open>SB\<close> through the first is the byte \<open>LBU\<close> loads through the second.
\<close>

theorem kunseg_mirror:
  fixes mem_map :: "('j, 'r) lightrec_mem_map list" and state :: "('j, 'r) lightrec_state"
    and store load :: opcode and a x base_s base_l data data' :: u32
    and m m' :: "('j, 'r) lightrec_mem_map"
  defines "state' \<equiv> snd (lightrec_rw mem_map state store base_s data)"
  shows "unat (kunseg a) =
           (if 0xA0000000 \<le> unat a then unat a - 0xA0000000
            else if 0x80000000 \<le> unat a then unat a - 0x80000000
            else unat a)
       \<and> (x < 0x20000000 \<longrightarrow> kunseg (0xA0000000 + x) = x \<and> kunseg (0x80000000 + x) = x)
       \<and> (x < 0x20000000
            \<and> i_op store = OP_SB \<and> base_s + scast (i_imm store) = 0xA0000000 + x
            \<and> i_op load = OP_LBU \<and> base_l + scast (i_imm load) = 0x80000000 + x
            \<and> resolve mem_map (0xA0000000 + x) = Some m \<and> ops m = None
            \<and> resolve mem_map (0x80000000 + x) = Some m' \<and> ops m' = None
          \<longrightarrow> m' = m
            \<and> host_address m' (0x80000000 + x) = host_address m (0xA0000000 + x)
            \<and> load_u8 (mem state') (host_address m (0xA0000000 + x)) = ucast data
            \<and> lightrec_rw mem_map state' load base_l data' = (ucast (ucast data :: u8), state'))"
proof -
  have 3: "m' = m
            \<and> host_address m' (0x80000000 + x) = host_address m (0xA0000000 + x)
            \<and> load_u8 (mem state') (host_address m (0xA0000000 + x)) = ucast data
            \<and> lightrec_rw mem_map state' load base_l data' = (ucast (ucast data :: u8), state')"
    if x: "x < 0x20000000"
      and s: "i_op store = OP_SB" "base_s + scast (i_imm store) = 0xA0000000 + x"
      and l: "i_op load = OP_LBU" "base_l + scast (i_imm load) = 0x80000000 + x"
      and r: "resolve mem_map (0xA0000000 + x) = Some m" "ops m = None"
      and r': "resolve mem_map (0x80000000 + x) = Some m'" "ops m' = None"
  proof -
    note k = kunseg_kseg [OF x]
    have e: "m' = m"
      using resolve_direct_kunseg [OF _ r r'] k by simp
    have h: "host_address m' (0x80000000 + x) = host_address m (0xA0000000 + x)"
      by (simp add: e host_address_def k)
    have st: "state' = state\<lparr>mem := store_u8 (mem state) (host_address m (0xA0000000 + x)) (ucast data)\<rparr>"
      unfolding state'_def using r s
      by (simp add: rw_resolved rw_on_entry_def rw_direct_def)
    have ld: "lightrec_rw mem_map state' load base_l data' =
        (ucast (load_u8 (mem state') (host_address m' (0x80000000 + x))), state')"
      using r' l by (simp add: rw_resolved rw_on_entry_def rw_direct_def)
    have v: "load_u8 (mem state') (host_address m (0xA0000000 + x)) = ucast data"
      by (simp add: st load_u8_def store_u8_def)
    show ?thesis using e h v ld by simp
  qed
  show ?thesis
    using unat_kunseg [of a] kunseg_kseg [of x] 3 by blast
qed

text \<open>A byte stored at \<open>0xA0000010\<close> and loaded at \<open>0x80000010\<close> on the small machine.\<close>

theorem kunseg_mirror_witness:
  "kunseg 0xA0000010 = 0x10 \<and> kunseg 0x80000010 = 0x10
   \<and> lightrec_rw example_map
        (snd (lightrec_rw example_map example_state (example_op OP_SB 0) 0xA0000010 0x1234565A))
        (example_op OP_LBU 0) 0x80000010 0
      = (0x5A, snd (lightrec_rw example_map example_state (example_op OP_SB 0) 0xA0000010 0x1234565A))"
proof -
  have x: "(0x10 :: u32) < 0x20000000" by simp
  have c: "i_op (example_op c i) = c" for c i by (simp add: example_op_def)
  have a: "0xA0000010 + scast (i_imm (example_op c 0)) = (0xA0000000 + 0x10 :: u32)"
    "0x80000010 + scast (i_imm (example_op c 0)) = (0x80000000 + 0x10 :: u32)" for c
    by (simp_all add: example_op_def)
  have r: "resolve example_map (0xA0000000 + 0x10) = Some example_ram"
    "resolve example_map (0x80000000 + 0x10) = Some example_ram"
    by (simp_all add: example_defs resolve_defs)
  have o: "ops example_ram = None" by (simp add: example_defs)
  note t = kunseg_mirror [where x = "0x10" and mem_map = example_map and state = example_state
      and store = "example_op OP_SB 0" and load = "example_op OP_LBU 0"
      and base_s = "0xA0000010" and base_l = "0x80000010" and m = example_ram
      and m' = example_ram and data = "0x1234565A" and data' = 0]
  from t x c a r o show ?thesis by simp
qed

section \<open>Cycle accounting of the recompiler\<close>

lemma recompile_loop_cycles:
  "cycles (fst (recompile_loop ext list pc0 skip blk rc)) =
     cycles blk + sum_list (map (lightrec_cycles_of_opcode ext) list)"
proof (induction list arbitrary: pc0 skip blk rc)
  case Nil
  show ?case by simp
next
  case (Cons elm rest)
  show ?case
    by (simp add: Cons.IH Let_def add.assoc split: prod.splits)
qed

lemma recompile_loop_opcode_list:
  "opcode_list (fst (recompile_loop ext list pc0 skip blk rc)) = opcode_list blk"
proof (induction list arbitrary: pc0 skip blk rc)
  case Nil
  show ?case by simp
next
  case (Cons elm rest)
  show ?case
    by (simp add: Cons.IH Let_def split: prod.splits)
qed

lemmas recompile_defs =
  lightrec_recompile_block_def find_code_address_def kunseg_def example_ext_def
  example_raw_def

text \<open>
  Claim C6. When \<open>lightrec_recompile_block\<close> returns a block, its opcode list is the list
  the disassembler produced and its \<open>cycles\<close> field is the sum, in \<open>u32\<close> arithmetic, of
  \<open>lightrec_cycles_of_opcode\<close> over every opcode of that list, whatever the emitter
  returns: the cycles are added before the tests that skip a delay slot or a NOP.
\<close>

theorem recompile_block_cycles:
  assumes "fst (lightrec_recompile_block ext mem_map state pc0) = Some blk"
  shows "opcode_list blk = lightrec_disassemble ext (mem state) (find_code_address mem_map pc0)
       \<and> cycles blk = sum_list (map (lightrec_cycles_of_opcode ext) (opcode_list blk))"
proof -
  let ?code = "find_code_address mem_map pc0"
  let ?list = "lightrec_disassemble ext (mem state) ?code"
  from assms obtain j0 where j: "jit_new_state ext = Some j0"
    and ok: "?code \<noteq> 0" "malloc_block ext" "?list \<noteq> []"
    by (auto simp add: lightrec_recompile_block_def Let_def split: if_splits option.splits)
  define blk0 :: "'a block" where
    "blk0 = \<lparr>block.pc = pc0, kunseg_pc = kunseg pc0, jit = jit_prolog_tramp ext j0,
            function' = 0, opcode_list = ?list, cycles = 0, code = ?code\<rparr>"
  define res where
    "res = recompile_loop ext ?list pc0 False blk0 (lightrec_regcache_reset ext (reg_cache state))"
  have b: "blk = (fst res)\<lparr>jit := jit_ret_epilog ext (jit (fst res)),
               function' := jit_emit ext (jit_ret_epilog ext (jit (fst res)))\<rparr>"
    using assms j ok
    by (simp add: lightrec_recompile_block_def Let_def res_def blk0_def split: prod.splits)
  have "cycles (fst res) = sum_list (map (lightrec_cycles_of_opcode ext) ?list)"
    unfolding res_def by (simp add: recompile_loop_cycles blk0_def)
  moreover have "opcode_list (fst res) = ?list"
    unfolding res_def by (simp add: recompile_loop_opcode_list blk0_def)
  ultimately show ?thesis by (simp add: b)
qed

text \<open>
  The block of the small machine: branch, skipped delay slot, NOP and one more opcode
  count \<open>5 + 8 + 1 + 10\<close> cycles, and only the branch and the last opcode were emitted.
\<close>

theorem recompile_block_cycles_witness:
  "cycles (the (fst (lightrec_recompile_block example_ext example_map example_state 0x80000000)))
     = 5 + 8 + 1 + 10
   \<and> jit (the (fst (lightrec_recompile_block example_ext example_map example_state 0x80000000)))
     = [4, 9]"
proof -
  have e: "fst (lightrec_recompile_block example_ext example_map example_state 0x80000000) =
      Some \<lparr>block.pc = 0x80000000, kunseg_pc = 0, jit = [4, 9], function' = 0x20000,
        opcode_list = [example_raw 4, example_raw 7, example_raw 0, example_raw 9],
        cycles = 24, code = 0x10000\<rparr>"
    by (simp add: recompile_defs example_defs)
  from recompile_block_cycles [OF e] show ?thesis
    unfolding e by (simp add: example_ext_def example_raw_def)
qed

section \<open>The executor when recompilation fails\<close>

lemma recompile_loop_run_native:
  "recompile_loop (ext\<lparr>run_native := f\<rparr>) list pc0 skip blk rc =
     recompile_loop ext list pc0 skip blk rc"
  by (induction list arbitrary: pc0 skip blk rc) (simp_all add: Let_def split: prod.splits)

lemma recompile_block_run_native:
  "lightrec_recompile_block (ext\<lparr>run_native := f\<rparr>) mem_map state pc0 =
     lightrec_recompile_block ext mem_map state pc0"
  by (simp add: lightrec_recompile_block_def recompile_loop_run_native Let_def
      split: option.splits)

text \<open>
  Claim C8, as amended. On a state whose wrapper block exists, for a PC the block cache does not
  hold and for which \<open>lightrec_recompile_block\<close> returns \<open>NULL\<close>, \<open>lightrec_execute\<close>
  returns the PC it was given. The state it leaves differs from the one it was given in
  the log only: the out-of-memory line of the recompiler, when the PC is mapped, and
  then the line naming the PC. So no block is registered, and the result does not depend
  on what the native code would do: the wrapper is not entered.
\<close>

theorem execute_recompile_failure:
  assumes "wrapper state = Some w"
    and "lightrec_find_block (block_cache state) pc0 = None"
    and "fst (lightrec_recompile_block ext mem_map state pc0) = None"
  shows "lightrec_execute ext mem_map state pc0 =
           Returned (pc0,
             state\<lparr>log := log state
                @ (if find_code_address mem_map pc0 = 0 then [] else [Unable_to_recompile_block_OOM])
                @ [Unable_to_recompile_block_at_PC pc0]\<rparr>)
       \<and> lightrec_execute (ext\<lparr>run_native := f\<rparr>) mem_map state pc0 =
           lightrec_execute ext mem_map state pc0"
proof -
  have s: "snd (lightrec_recompile_block ext mem_map state pc0) =
      state\<lparr>log := log state
        @ (if find_code_address mem_map pc0 = 0 then [] else [Unable_to_recompile_block_OOM])\<rparr>"
    using assms(3)
    by (auto simp add: lightrec_recompile_block_def Let_def split: if_splits option.splits prod.splits)
  note r = recompile_block_run_native
  obtain b s1 where p: "lightrec_recompile_block ext mem_map state pc0 = (b, s1)"
    by (cases "lightrec_recompile_block ext mem_map state pc0")
  with assms(3) s have "b = None" "s1 = state\<lparr>log := log state
        @ (if find_code_address mem_map pc0 = 0 then [] else [Unable_to_recompile_block_OOM])\<rparr>"
    by simp_all
  then show ?thesis
    using assms(1,2) p by (simp add: lightrec_execute_def r)
qed

text \<open>An unmapped PC, and a mapped PC with no memory for the block, on the small machine.\<close>

theorem execute_recompile_failure_witness:
  "lightrec_execute example_ext example_map example_state 0xDEADBEEF =
     Returned (0xDEADBEEF, example_state\<lparr>log := [Unable_to_recompile_block_at_PC 0xDEADBEEF]\<rparr>)
   \<and> lightrec_execute (example_ext\<lparr>malloc_block := False\<rparr>) example_map example_state 0x80000000 =
     Returned (0x80000000, example_state\<lparr>log :=
       [Unable_to_recompile_block_OOM, Unable_to_recompile_block_at_PC 0x80000000]\<rparr>)"
proof -
  have w: "wrapper example_state = Some example_wrapper"
    and c: "lightrec_find_block (block_cache example_state) a = None" for a
    by (simp_all add: example_state_def lightrec_find_block_def)
  have u: "find_code_address example_map 0xDEADBEEF = 0"
    and m: "find_code_address example_map 0x80000000 = 0x10000"
    by (simp_all add: find_code_address_def kunseg_def example_defs)
  have n1: "fst (lightrec_recompile_block example_ext example_map example_state 0xDEADBEEF) = None"
    by (simp add: lightrec_recompile_block_def u)
  have n2: "fst (lightrec_recompile_block (example_ext\<lparr>malloc_block := False\<rparr>) example_map
      example_state 0x80000000) = None"
    by (simp add: lightrec_recompile_block_def m)
  show ?thesis
    using execute_recompile_failure [OF w c n1] execute_recompile_failure [OF w c n2]
    by (simp add: u m example_state_def)
qed

text \<open>
  Claim C8 as stated fails on a state whose wrapper is \<open>NULL\<close>, such as the one
  \<open>lightrec_init\<close> returns when the wrapper block cannot be allocated: the PC is not
  in the cache and cannot be recompiled, and \<open>lightrec_execute\<close> goes through the null
  pointer \<open>state->wrapper\<close> before it looks the PC up.
\<close>

theorem execute_recompile_failure_counterexample:
  "lightrec_find_block (block_cache (example_state\<lparr>wrapper := None\<rparr>)) 0xDEADBEEF = None
   \<and> fst (lightrec_recompile_block example_ext example_map (example_state\<lparr>wrapper := None\<rparr>)
        0xDEADBEEF) = None
   \<and> lightrec_execute example_ext example_map (example_state\<lparr>wrapper := None\<rparr>) 0xDEADBEEF
       = Null_dereference
   \<and> (case lightrec_init (example_init_env\<lparr>malloc_wrapper := False\<rparr>) (\<lambda>a. 0) [] example_map 2 0 of
        Returned (Some (s, mm)) \<Rightarrow>
          lightrec_find_block (block_cache s) 0xDEADBEEF = None
          \<and> fst (lightrec_recompile_block example_ext mm s 0xDEADBEEF) = None
          \<and> lightrec_execute example_ext mm s 0xDEADBEEF = Null_dereference
      | _ \<Rightarrow> False)"
proof -
  have u: "find_code_address example_map 0xDEADBEEF = 0"
    by (simp add: find_code_address_def kunseg_def example_defs)
  have t: "take 2 example_map = example_map"
    by (simp add: example_map_def)
  show ?thesis
    by (simp add: t lightrec_execute_def lightrec_find_block_def lightrec_recompile_block_def u
        example_state_def lightrec_init_def generate_wrapper_block_def
        generate_address_lookup_block_def example_init_env_def)
qed

section \<open>Allocation failures during initialisation\<close>

text \<open>
  Claim C7 does not hold of \<open>lightrec_init\<close>, which tests none of its allocations.
  On the small machine: when the wrapper block cannot be allocated (\<open>malloc\<close> or
  \<open>jit_new_state\<close> fails), \<open>lightrec_init\<close> returns a state whose \<open>wrapper\<close> is \<open>NULL\<close>;
  when \<open>calloc\<close> fails or the address-lookup block cannot be allocated, it goes
  through a null pointer. For no input does it return \<open>NULL\<close>.
\<close>

theorem init_allocation_failure:
  "lightrec_init (example_init_env\<lparr>malloc_wrapper := False\<rparr>) (\<lambda>a. 0) [] example_map 2 0 =
     Returned (Some
       (\<lparr>stop = False, block_exit_flags = LIGHTREC_EXIT_NORMAL, block_exit_cycles = 0,
         next_pc = 0, current = None, block_cache = Map.empty, reg_cache = (),
         wrapper = None,
         addr_lookup_block = Some \<lparr>block.pc = 0, kunseg_pc = 0, jit = [], function' = 0x8000,
                                   opcode_list = [], cycles = 0, code = 0\<rparr>,
         addr_lookup = 0x8000, end_of_block = 0, cop_ops = 0, mem = (\<lambda>a. 0),
         log = [Unable_to_compile_wrapper]\<rparr>,
        example_map))
   \<and> lightrec_init (example_init_env\<lparr>jit_new_state_wrapper := None\<rparr>) (\<lambda>a. 0) [] example_map 2 0
       \<noteq> Returned None
   \<and> lightrec_init (example_init_env\<lparr>calloc_state := False\<rparr>) (\<lambda>a. 0) [] example_map 2 0 =
     Null_dereference
   \<and> lightrec_init (example_init_env\<lparr>malloc_address_lookup := False\<rparr>) (\<lambda>a. 0) [] example_map 2 0 =
     Null_dereference
   \<and> lightrec_init env m l map' nb cop_ops' \<noteq> Returned None"
proof -
  have "lightrec_init env m l map' nb cop_ops' \<noteq> Returned None"
    by (simp add: lightrec_init_def Let_def split: prod.splits option.splits)
  then show ?thesis
    by (simp add: lightrec_init_def generate_wrapper_block_def generate_address_lookup_block_def
        example_init_env_def example_map_def)
qed

end
